theory Spec2Isabelle
  imports Complex_Main
begin

section \<open>Scalars\<close>

text \<open>
  The filter of \<^verbatim>\<open>pr_ins_qkf.cpp\<close> computes on \<^verbatim>\<open>float\<close> and \<^verbatim>\<open>double\<close>.
  The embedding is polymorphic in the scalar type \<open>'a\<close>: the operations of the code
  (\<open>+\<close>, \<open>-\<close>, \<open>*\<close>, \<open>/\<close>, \<open>abs\<close>, \<open><\<close>, literals) are the overloaded ones of HOL, so
  every definition below can be read at any scalar type.  Rounding is not modelled, and
  \<^verbatim>\<open>float\<close> and \<^verbatim>\<open>double\<close> are the same scalar type: each \<^verbatim>\<open>cast<float>()\<close> and
  \<^verbatim>\<open>cast<double>()\<close> of the source is the identity here.

  Two instances are used.  At a field (\<open>real\<close>) the definitions are the exact
  arithmetic of the algorithm.  At the type \<open>ieee\<close> below they also carry the special
  values of IEEE 754 (the two infinities and NaN), so that a division by zero and the
  checks \<^verbatim>\<open>hasNaN\<close>, \<^verbatim>\<open>hasInf\<close> mean what they mean in the program.  Signed zeros
  are not modelled: zero is the positive zero.

  A quotient by zero is an infinity or NaN in the program and on \<open>ieee\<close>; in a field it
  is the field's total division, which is not the program's.  A theorem at a field
  therefore speaks for the program where the divisors are not zero.  Where the
  conclusion depends on a quotient the theorem assumes the divisor non-zero, and every
  concrete example at \<open>real\<close> has non-zero divisors.
\<close>

datatype ieee = Fin real | PInf | MInf | NaN

instantiation ieee :: "{zero,one,plus,minus,uminus,times,inverse,abs,ord}"
begin

definition zero_ieee :: ieee where
  "zero_ieee = Fin 0"

definition one_ieee :: ieee where
  "one_ieee = Fin 1"

fun plus_ieee :: "ieee \<Rightarrow> ieee \<Rightarrow> ieee" where
  "plus_ieee NaN y = NaN"
| "plus_ieee x NaN = NaN"
| "plus_ieee (Fin a) (Fin b) = Fin (a + b)"
| "plus_ieee PInf MInf = NaN"
| "plus_ieee MInf PInf = NaN"
| "plus_ieee PInf y = PInf"
| "plus_ieee x PInf = PInf"
| "plus_ieee MInf y = MInf"
| "plus_ieee x MInf = MInf"

fun uminus_ieee :: "ieee \<Rightarrow> ieee" where
  "uminus_ieee (Fin a) = Fin (- a)"
| "uminus_ieee PInf = MInf"
| "uminus_ieee MInf = PInf"
| "uminus_ieee NaN = NaN"

definition minus_ieee :: "ieee \<Rightarrow> ieee \<Rightarrow> ieee" where
  "minus_ieee x y = x + (- y)"

fun times_ieee :: "ieee \<Rightarrow> ieee \<Rightarrow> ieee" where
  "times_ieee NaN y = NaN"
| "times_ieee x NaN = NaN"
| "times_ieee (Fin a) (Fin b) = Fin (a * b)"
| "times_ieee PInf PInf = PInf"
| "times_ieee MInf MInf = PInf"
| "times_ieee PInf MInf = MInf"
| "times_ieee MInf PInf = MInf"
| "times_ieee (Fin a) PInf = (if a = 0 then NaN else if 0 < a then PInf else MInf)"
| "times_ieee PInf (Fin a) = (if a = 0 then NaN else if 0 < a then PInf else MInf)"
| "times_ieee (Fin a) MInf = (if a = 0 then NaN else if 0 < a then MInf else PInf)"
| "times_ieee MInf (Fin a) = (if a = 0 then NaN else if 0 < a then MInf else PInf)"

fun inverse_ieee :: "ieee \<Rightarrow> ieee" where
  "inverse_ieee (Fin a) = (if a = 0 then PInf else Fin (1 / a))"
| "inverse_ieee PInf = Fin 0"
| "inverse_ieee MInf = Fin 0"
| "inverse_ieee NaN = NaN"

definition divide_ieee :: "ieee \<Rightarrow> ieee \<Rightarrow> ieee" where
  "divide_ieee x y = x * inverse y"

fun abs_ieee :: "ieee \<Rightarrow> ieee" where
  "abs_ieee (Fin a) = Fin \<bar>a\<bar>"
| "abs_ieee PInf = PInf"
| "abs_ieee MInf = PInf"
| "abs_ieee NaN = NaN"

fun less_ieee :: "ieee \<Rightarrow> ieee \<Rightarrow> bool" where
  "less_ieee (Fin a) (Fin b) = (a < b)"
| "less_ieee (Fin a) PInf = True"
| "less_ieee MInf (Fin b) = True"
| "less_ieee MInf PInf = True"
| "less_ieee x y = False"

fun less_eq_ieee :: "ieee \<Rightarrow> ieee \<Rightarrow> bool" where
  "less_eq_ieee NaN y = False"
| "less_eq_ieee x NaN = False"
| "less_eq_ieee (Fin a) (Fin b) = (a \<le> b)"
| "less_eq_ieee MInf y = True"
| "less_eq_ieee x PInf = True"
| "less_eq_ieee x y = False"

instance ..

end

text \<open>\<^verbatim>\<open>std::sqrt\<close>, \<^verbatim>\<open>std::isnan\<close> and \<^verbatim>\<open>std::isinf\<close> on \<open>ieee\<close>.\<close>

fun ieee_sqrt :: "ieee \<Rightarrow> ieee" where
  "ieee_sqrt (Fin a) = (if a < 0 then NaN else Fin (sqrt a))"
| "ieee_sqrt PInf = PInf"
| "ieee_sqrt MInf = NaN"
| "ieee_sqrt NaN = NaN"

fun ieee_isnan :: "ieee \<Rightarrow> bool" where
  "ieee_isnan NaN = True"
| "ieee_isnan x = False"

fun ieee_isinf :: "ieee \<Rightarrow> bool" where
  "ieee_isinf PInf = True"
| "ieee_isinf MInf = True"
| "ieee_isinf x = False"

text \<open>
  The functions of the C++ standard library and the constants that the file uses, as a
  record, so that a definition names what it takes from the library:
  \<^verbatim>\<open>std::sqrt\<close>, \<^verbatim>\<open>std::isnan\<close>, \<^verbatim>\<open>std::isinf\<close>, \<^verbatim>\<open>M_PI\<close> and
  \<^verbatim>\<open>std::numeric_limits<float>::epsilon()\<close>.
\<close>

record 'a scalar_ops =
  op_sqrt :: "'a \<Rightarrow> 'a"
  op_isnan :: "'a \<Rightarrow> bool"
  op_isinf :: "'a \<Rightarrow> bool"
  const_pi :: 'a
  const_epsilon :: 'a

text \<open>The two instances: exact reals (no NaN, no infinity), and \<open>ieee\<close>.
  The epsilon of \<^verbatim>\<open>float\<close> is \<open>2 ^ -23\<close>.\<close>

definition real_ops :: "real scalar_ops" where
  "real_ops = \<lparr> op_sqrt = sqrt, op_isnan = (\<lambda>_. False), op_isinf = (\<lambda>_. False),
                const_pi = pi, const_epsilon = 1 / 2 ^ 23 \<rparr>"

definition ieee_ops :: "ieee scalar_ops" where
  "ieee_ops = \<lparr> op_sqrt = ieee_sqrt, op_isnan = ieee_isnan, op_isinf = ieee_isinf,
                const_pi = Fin pi, const_epsilon = Fin (1 / 2 ^ 23) \<rparr>"


section \<open>Vectors and matrices\<close>

text \<open>
  A fixed-size Eigen vector is the function from its indices to its coefficients, a
  matrix the function from row and column.  The indices of a \<open>n\<close>-vector are \<open>0..<n\<close>;
  what a function returns beyond them is no part of the object, and the theorems speak of
  the indices in range.  Products are written out coefficient by coefficient.
\<close>

type_synonym 'a vec = "nat \<Rightarrow> 'a"
type_synonym 'a mat = "nat \<Rightarrow> nat \<Rightarrow> 'a"

definition vec3 :: "'a \<Rightarrow> 'a \<Rightarrow> 'a \<Rightarrow> 'a vec" where
  "vec3 a b c = (\<lambda>i. if i = 0 then a else if i = 1 then b else c)"

definition vzero :: "'a::zero vec" where
  "vzero = (\<lambda>i. 0)"

definition vadd :: "'a::plus vec \<Rightarrow> 'a vec \<Rightarrow> 'a vec" where
  "vadd u v = (\<lambda>i. u i + v i)"

definition vsub :: "'a::minus vec \<Rightarrow> 'a vec \<Rightarrow> 'a vec" where
  "vsub u v = (\<lambda>i. u i - v i)"

definition vneg :: "'a::uminus vec \<Rightarrow> 'a vec" where
  "vneg v = (\<lambda>i. - v i)"

definition vmuls :: "'a::times vec \<Rightarrow> 'a \<Rightarrow> 'a vec" where
  \<comment> \<open>vector \<open>*\<close> scalar\<close>
  "vmuls v s = (\<lambda>i. v i * s)"

definition smulv :: "'a::times \<Rightarrow> 'a vec \<Rightarrow> 'a vec" where
  \<comment> \<open>scalar \<open>*\<close> vector\<close>
  "smulv s v = (\<lambda>i. s * v i)"

definition vdivs :: "'a::inverse vec \<Rightarrow> 'a \<Rightarrow> 'a vec" where
  "vdivs v s = (\<lambda>i. v i / s)"

definition segment :: "nat \<Rightarrow> 'a vec \<Rightarrow> 'a vec" where
  \<comment> \<open>\<^verbatim>\<open>v.segment<n>(off)\<close>, read\<close>
  "segment off v = (\<lambda>i. v (off + i))"

definition set_segment ::
  "nat \<Rightarrow> nat \<Rightarrow> 'a vec \<Rightarrow> 'a vec \<Rightarrow> 'a vec" where
  \<comment> \<open>\<^verbatim>\<open>v.segment<n>(off) = s\<close>\<close>
  "set_segment n off s v = (\<lambda>i. if off \<le> i \<and> i < off + n then s (i - off) else v i)"

definition dot3 :: "'a::{plus,times} vec \<Rightarrow> 'a vec \<Rightarrow> 'a" where
  "dot3 u v = u 0 * v 0 + u 1 * v 1 + u 2 * v 2"

definition dot4 :: "'a::{plus,times} vec \<Rightarrow> 'a vec \<Rightarrow> 'a" where
  "dot4 u v = u 0 * v 0 + u 1 * v 1 + u 2 * v 2 + u 3 * v 3"

definition norm3 :: "'a::{plus,times} scalar_ops \<Rightarrow> 'a vec \<Rightarrow> 'a" where
  "norm3 S v = op_sqrt S (dot3 v v)"

definition normalized3 ::
  "'a::{plus,times,inverse} scalar_ops \<Rightarrow> 'a vec \<Rightarrow> 'a vec" where
  \<comment> \<open>Eigen's \<^verbatim>\<open>normalized()\<close> of the Eigen 2 and 3.0 that the file is written for:
      the vector divided by its norm, with no test for a zero norm.\<close>
  "normalized3 S v = vdivs v (norm3 S v)"

definition cross3 :: "'a::{minus,times} vec \<Rightarrow> 'a vec \<Rightarrow> 'a vec" where
  \<comment> \<open>\<^verbatim>\<open>u.cross(v)\<close>\<close>
  "cross3 u v = vec3 (u 1 * v 2 - u 2 * v 1) (u 2 * v 0 - u 0 * v 2) (u 0 * v 1 - u 1 * v 0)"

definition mzero :: "'a::zero mat" where
  "mzero = (\<lambda>i j. 0)"

definition midentity :: "'a::{zero,one} mat" where
  "midentity = (\<lambda>i j. if i = j then 1 else 0)"

definition as_diagonal :: "'a::zero vec \<Rightarrow> 'a mat" where
  "as_diagonal v = (\<lambda>i j. if i = j then v i else 0)"

definition madd :: "'a::plus mat \<Rightarrow> 'a mat \<Rightarrow> 'a mat" where
  "madd A B = (\<lambda>i j. A i j + B i j)"

definition msub :: "'a::minus mat \<Rightarrow> 'a mat \<Rightarrow> 'a mat" where
  "msub A B = (\<lambda>i j. A i j - B i j)"

definition mmuls :: "'a::times mat \<Rightarrow> 'a \<Rightarrow> 'a mat" where
  \<comment> \<open>matrix \<open>*\<close> scalar\<close>
  "mmuls A s = (\<lambda>i j. A i j * s)"

definition smulm :: "'a::times \<Rightarrow> 'a mat \<Rightarrow> 'a mat" where
  \<comment> \<open>scalar \<open>*\<close> matrix\<close>
  "smulm s A = (\<lambda>i j. s * A i j)"

definition mtranspose :: "'a mat \<Rightarrow> 'a mat" where
  "mtranspose A = (\<lambda>i j. A j i)"

definition mm3 :: "'a::{plus,times} mat \<Rightarrow> 'a mat \<Rightarrow> 'a mat" where
  \<comment> \<open>the product of two matrices whose inner dimension is 3\<close>
  "mm3 A B = (\<lambda>i j. A i 0 * B 0 j + A i 1 * B 1 j + A i 2 * B 2 j)"

definition mv3 :: "'a::{plus,times} mat \<Rightarrow> 'a vec \<Rightarrow> 'a vec" where
  \<comment> \<open>matrix with 3 columns \<open>*\<close> 3-vector\<close>
  "mv3 A v = (\<lambda>i. A i 0 * v 0 + A i 1 * v 1 + A i 2 * v 2)"

definition vm3 :: "'a::{plus,times} vec \<Rightarrow> 'a mat \<Rightarrow> 'a vec" where
  \<comment> \<open>transposed 3-vector \<open>*\<close> matrix with 3 rows\<close>
  "vm3 v A = (\<lambda>j. v 0 * A 0 j + v 1 * A 1 j + v 2 * A 2 j)"

definition mv4 :: "'a::{plus,times} mat \<Rightarrow> 'a vec \<Rightarrow> 'a vec" where
  "mv4 A v = (\<lambda>i. A i 0 * v 0 + A i 1 * v 1 + A i 2 * v 2 + A i 3 * v 3)"

definition vm4 :: "'a::{plus,times} vec \<Rightarrow> 'a mat \<Rightarrow> 'a vec" where
  "vm4 v A = (\<lambda>j. v 0 * A 0 j + v 1 * A 1 j + v 2 * A 2 j + v 3 * A 3 j)"

definition outer :: "'a::times vec \<Rightarrow> 'a vec \<Rightarrow> 'a mat" where
  \<comment> \<open>column vector \<open>*\<close> row vector\<close>
  "outer g r = (\<lambda>i j. g i * r j)"

definition block :: "nat \<Rightarrow> nat \<Rightarrow> 'a mat \<Rightarrow> 'a mat" where
  \<comment> \<open>\<^verbatim>\<open>M.block<h, w>(r, c)\<close>, read\<close>
  "block r c M = (\<lambda>i j. M (r + i) (c + j))"

definition set_block ::
  "nat \<Rightarrow> nat \<Rightarrow> nat \<Rightarrow> nat \<Rightarrow> 'a mat
     \<Rightarrow> 'a mat \<Rightarrow> 'a mat" where
  \<comment> \<open>\<^verbatim>\<open>M.block<h, w>(r, c) = B\<close>\<close>
  "set_block h w r c B M =
     (\<lambda>i j. if r \<le> i \<and> i < r + h \<and> c \<le> j \<and> j < c + w then B (i - r) (j - c) else M i j)"

definition add_block3 ::
  "nat \<Rightarrow> nat \<Rightarrow> 'a::plus mat \<Rightarrow> 'a mat \<Rightarrow> 'a mat" where
  \<comment> \<open>\<^verbatim>\<open>M.block<3, 3>(r, c) += B\<close>\<close>
  "add_block3 r c B M = set_block 3 3 r c (madd (block r c M) B) M"

definition set_coeff ::
  "nat \<Rightarrow> nat \<Rightarrow> 'a \<Rightarrow> 'a mat \<Rightarrow> 'a mat" where
  \<comment> \<open>\<^verbatim>\<open>M(r, c) = x\<close>\<close>
  "set_coeff r c x M = (\<lambda>i j. if i = r \<and> j = c then x else M i j)"


section \<open>Quaternions\<close>

text \<open>
  \<^verbatim>\<open>Eigen::Quaternion\<close>: the scalar part \<open>w\<close> and the vector part \<open>(x, y, z)\<close>;
  \<^verbatim>\<open>coeffs()\<close> lists them as \<open>(x, y, z, w)\<close>.  The conjugate, the product, the
  rotation matrix and the rotation of a vector are Eigen's.
\<close>

record 'a quat =
  qw :: 'a
  qx :: 'a
  qy :: 'a
  qz :: 'a

definition quat_identity :: "'a::{zero,one} quat" where
  "quat_identity = \<lparr> qw = 1, qx = 0, qy = 0, qz = 0 \<rparr>"

definition conjugate :: "'a::uminus quat \<Rightarrow> 'a quat" where
  "conjugate q = \<lparr> qw = qw q, qx = - qx q, qy = - qy q, qz = - qz q \<rparr>"

definition quat_mul ::
  "'a::{plus,minus,times} quat \<Rightarrow> 'a quat \<Rightarrow> 'a quat" where
  "quat_mul a b =
     \<lparr> qw = qw a * qw b - qx a * qx b - qy a * qy b - qz a * qz b,
       qx = qw a * qx b + qx a * qw b + qy a * qz b - qz a * qy b,
       qy = qw a * qy b + qy a * qw b + qz a * qx b - qx a * qz b,
       qz = qw a * qz b + qz a * qw b + qx a * qy b - qy a * qx b \<rparr>"

definition coeffs_dot :: "'a::{plus,times} quat \<Rightarrow> 'a quat \<Rightarrow> 'a" where
  \<comment> \<open>\<^verbatim>\<open>a.coeffs().dot(b.coeffs())\<close>\<close>
  "coeffs_dot a b = qx a * qx b + qy a * qy b + qz a * qz b + qw a * qw b"

definition quat_norm :: "'a::{plus,times} scalar_ops \<Rightarrow> 'a quat \<Rightarrow> 'a" where
  "quat_norm S q = op_sqrt S (coeffs_dot q q)"

definition coeffs_negated :: "'a::{one,uminus,times} quat \<Rightarrow> 'a quat" where
  \<comment> \<open>\<^verbatim>\<open>q.coeffs() *= -1\<close>\<close>
  "coeffs_negated q =
     \<lparr> qw = qw q * (- 1), qx = qx q * (- 1), qy = qy q * (- 1), qz = qz q * (- 1) \<rparr>"

definition toRotationMatrix :: "'a::{one,plus,minus,times} quat \<Rightarrow> 'a mat" where
  "toRotationMatrix q =
     (let tx = qx q + qx q; ty = qy q + qy q; tz = qz q + qz q;
          twx = tx * qw q; twy = ty * qw q; twz = tz * qw q;
          txx = tx * qx q; txy = ty * qx q; txz = tz * qx q;
          tyy = ty * qy q; tyz = tz * qy q; tzz = tz * qz q
      in (\<lambda>i j.
           if i = 0 then (if j = 0 then 1 - (tyy + tzz) else if j = 1 then txy - twz else txz + twy)
           else if i = 1 then (if j = 0 then txy + twz else if j = 1 then 1 - (txx + tzz) else tyz - twx)
           else (if j = 0 then txz - twy else if j = 1 then tyz + twx else 1 - (txx + tyy))))"

definition rotate ::
  "'a::{one,plus,minus,times} quat \<Rightarrow> 'a vec \<Rightarrow> 'a vec" where
  \<comment> \<open>\<^verbatim>\<open>q * v\<close>: the vector \<open>v\<close> rotated by \<open>q\<close>\<close>
  "rotate q v = mv3 (toRotationMatrix q) v"

text \<open>
  The functions of \<^verbatim>\<open>eknav/quaternions.hpp\<close> and \<^verbatim>\<open>eknav/assertions.hpp\<close>, and
  the two functions of Eigen that are not written out above.  Their code is not in the
  file, so the filter takes them as a parameter: \<^verbatim>\<open>exp<T>\<close> (rotation vector to
  quaternion), \<^verbatim>\<open>log<T>\<close> (quaternion to rotation vector),
  \<^verbatim>\<open>incremental_normalized\<close>, \<^verbatim>\<open>cross<T>\<close> (the cross-product matrix of a
  vector), \<^verbatim>\<open>Quaternion::setFromTwoVectors\<close> and \<^verbatim>\<open>isUnitary\<close>.
\<close>

record 'a quaternion_ops =
  q_exp :: "'a vec \<Rightarrow> 'a quat"
  q_log :: "'a quat \<Rightarrow> 'a vec"
  q_incremental_normalized :: "'a quat \<Rightarrow> 'a quat"
  q_cross :: "'a vec \<Rightarrow> 'a mat"
  q_setFromTwoVectors :: "'a vec \<Rightarrow> 'a vec \<Rightarrow> 'a quat"
  q_isUnitary :: "'a mat \<Rightarrow> bool"

section \<open>The filter's data\<close>

text \<open>The mean state, \<^verbatim>\<open>pseudorange_ins_qkf::state\<close>.\<close>

record 'a state =
  gyro_bias :: "'a vec"
  orientation :: "'a quat"
  position :: "'a vec"
  velocity :: "'a vec"
  accel_bias :: "'a vec"
  clock_bias :: 'a
  inertial_accel :: "'a vec"
  body_rate :: "'a vec"

text \<open>
  The filter object: the mean, the 12x12 covariance \<open>cov\<close> (gyro bias, attitude,
  velocity, accelerometer bias), the 4x4 covariance \<open>pt_cov\<close> (position, clock bias),
  and the process-noise parameters, which no function of the file writes.
\<close>

record 'a pseudorange_ins_qkf =
  avg_state :: "'a state"
  cov :: "'a mat"
  pt_cov :: "'a mat"
  gyro_stability_noise :: "'a vec"
  gyro_white_noise :: "'a vec"
  accel_white_noise :: "'a vec"
  accel_stability_noise :: "'a vec"
  clock_stability_noise :: 'a
  accel_gravity_norm :: 'a

text \<open>An \<^verbatim>\<open>assert\<close> that fails aborts the program.\<close>

datatype fault = Assertion_failed

definition asserting :: "bool \<Rightarrow> 'b \<Rightarrow> fault + 'b" where
  "asserting ok x = (if ok then Inr x else Inl Assertion_failed)"

section \<open>Finiteness and the invariant\<close>

definition hasNaN_vec ::
  "'a scalar_ops \<Rightarrow> nat \<Rightarrow> 'a vec \<Rightarrow> bool" where
  "hasNaN_vec S n v = list_ex (\<lambda>i. op_isnan S (v i)) [0..<n]"

definition hasInf_vec ::
  "'a scalar_ops \<Rightarrow> nat \<Rightarrow> 'a vec \<Rightarrow> bool" where
  "hasInf_vec S n v = list_ex (\<lambda>i. op_isinf S (v i)) [0..<n]"

definition hasNaN_mat ::
  "'a scalar_ops \<Rightarrow> nat \<Rightarrow> nat \<Rightarrow> 'a mat \<Rightarrow> bool" where
  "hasNaN_mat S h w M = list_ex (\<lambda>i. list_ex (\<lambda>j. op_isnan S (M i j)) [0..<w]) [0..<h]"

definition hasInf_mat ::
  "'a scalar_ops \<Rightarrow> nat \<Rightarrow> nat \<Rightarrow> 'a mat \<Rightarrow> bool" where
  "hasInf_mat S h w M = list_ex (\<lambda>i. list_ex (\<lambda>j. op_isinf S (M i j)) [0..<w]) [0..<h]"

definition hasNaN_quat :: "'a scalar_ops \<Rightarrow> 'a quat \<Rightarrow> bool" where
  "hasNaN_quat S q =
     (op_isnan S (qx q) \<or> op_isnan S (qy q) \<or> op_isnan S (qz q) \<or> op_isnan S (qw q))"

definition hasInf_quat :: "'a scalar_ops \<Rightarrow> 'a quat \<Rightarrow> bool" where
  "hasInf_quat S q =
     (op_isinf S (qx q) \<or> op_isinf S (qy q) \<or> op_isinf S (qz q) \<or> op_isinf S (qw q))"

definition has_nan :: "'a scalar_ops \<Rightarrow> 'a state \<Rightarrow> bool" where
  "has_nan S s =
     (hasNaN_vec S 3 (gyro_bias s)
      \<or> hasNaN_quat S (orientation s)
      \<or> hasNaN_vec S 3 (position s)
      \<or> hasNaN_vec S 3 (velocity s)
      \<or> hasNaN_vec S 3 (accel_bias s)
      \<or> hasNaN_vec S 3 (inertial_accel s)
      \<or> hasNaN_vec S 3 (body_rate s)
      \<or> op_isnan S (clock_bias s))"

definition has_inf :: "'a scalar_ops \<Rightarrow> 'a state \<Rightarrow> bool" where
  "has_inf S s =
     (hasInf_vec S 3 (gyro_bias s)
      \<or> hasInf_quat S (orientation s)
      \<or> hasInf_vec S 3 (position s)
      \<or> hasInf_vec S 3 (velocity s)
      \<or> hasInf_vec S 3 (accel_bias s)
      \<or> hasInf_vec S 3 (inertial_accel s)
      \<or> hasInf_vec S 3 (body_rate s)
      \<or> op_isinf S (clock_bias s))"

definition state_is_real :: "'a scalar_ops \<Rightarrow> 'a state \<Rightarrow> bool" where
  \<comment> \<open>\<^verbatim>\<open>state::is_real\<close>\<close>
  "state_is_real S s = (\<not> has_nan S s \<and> \<not> has_inf S s)"

definition is_real :: "'a scalar_ops \<Rightarrow> 'a pseudorange_ins_qkf \<Rightarrow> bool" where
  "is_real S f =
     (\<not> (hasNaN_mat S 12 12 (cov f) \<or> hasInf_mat S 12 12 (cov f)
         \<or> hasNaN_mat S 4 4 (pt_cov f) \<or> hasInf_mat S 4 4 (pt_cov f))
      \<and> state_is_real S (avg_state f))"

definition invariants_met ::
  "'a::{one,plus,minus,times,inverse,abs,ord} scalar_ops \<Rightarrow> 'a pseudorange_ins_qkf \<Rightarrow> bool" where
  "invariants_met S f =
     (is_real S f
      \<and> \<bar>1 - 1 / quat_norm S (orientation (avg_state f))\<bar> < op_sqrt S (const_epsilon S))"


section \<open>Construction and initialisation\<close>

text \<open>
  The default constructor.  It does not set the process-noise parameters; the model
  takes the object's other members from \<open>f0\<close>.  The constructor ends with
  \<^verbatim>\<open>assert(invariants_met())\<close>.
\<close>

definition pseudorange_ins_qkf_ctor ::
  "'a::{zero,numeral,minus,uminus,times,inverse,abs,ord} scalar_ops
     \<Rightarrow> 'a pseudorange_ins_qkf \<Rightarrow> 'a pseudorange_ins_qkf" where
  "pseudorange_ins_qkf_ctor S f0 =
     (let st = (avg_state f0)
            \<lparr> position := vzero, gyro_bias := vzero, orientation := quat_identity,
              velocity := vzero, accel_bias := vzero, clock_bias := 0 \<rparr>;
          cov0 = mzero;
          pt_cov0 = mzero;
          gyro_bias_rms = 3 * const_pi S / 180;
          gyro_bias_rms = gyro_bias_rms * gyro_bias_rms;
          accel_bias_rms = 0.3;
          accel_bias_rms = accel_bias_rms * accel_bias_rms;
          clock_bias_rms = 300;
          clock_bias_rms = clock_bias_rms * clock_bias_rms;
          initial_pos_err = 100000;
          initial_pos_err = initial_pos_err * initial_pos_err;
          cov1 = set_block 3 3 0 0 (mmuls midentity gyro_bias_rms) cov0;
          cov2 = set_block 3 3 3 3
                   (mmuls (mmuls (mmuls midentity (const_pi S)) (const_pi S)) 0.5) cov1;
          cov3 = set_block 3 3 6 6 (mmuls midentity 100) cov2;
          cov4 = set_block 3 3 9 9 (mmuls midentity accel_bias_rms) cov3;
          pt_cov1 = set_block 3 3 0 0 (mmuls midentity initial_pos_err) pt_cov0;
          pt_cov2 = set_coeff 3 3 clock_bias_rms pt_cov1
      in f0 \<lparr> avg_state := st, cov := cov4, pt_cov := pt_cov2 \<rparr>)"

definition pseudorange_ins_qkf_ctor_asserted ::
  "'a::{zero,numeral,minus,uminus,times,inverse,abs,ord} scalar_ops
     \<Rightarrow> 'a pseudorange_ins_qkf \<Rightarrow> fault + 'a pseudorange_ins_qkf" where
  "pseudorange_ins_qkf_ctor_asserted S f0 =
     (let f = pseudorange_ins_qkf_ctor S f0 in asserting (invariants_met S f) f)"

definition clear_covariance_block ::
  "nat \<Rightarrow> 'a::{zero,numeral,minus,uminus,times,inverse,abs,ord} mat \<Rightarrow> 'a pseudorange_ins_qkf \<Rightarrow> 'a pseudorange_ins_qkf" where
  "clear_covariance_block rowcol repl f =
     (if rowcol \<le> 9 then
        f \<lparr> cov := set_block 3 3 rowcol rowcol repl
                     (set_block 12 3 0 rowcol mzero
                       (set_block 3 12 rowcol 0 mzero (cov f))) \<rparr>
      else
        (let clock_bias_rms = 300;
             clock_bias_rms = clock_bias_rms * clock_bias_rms
         in f \<lparr> pt_cov := set_coeff 3 3 clock_bias_rms (set_block 3 3 0 0 repl mzero) \<rparr>))"

definition init_attitude ::
  "'a::{zero,numeral,minus,uminus,times,inverse,abs,ord} quat \<Rightarrow> 'a mat
     \<Rightarrow> 'a pseudorange_ins_qkf \<Rightarrow> 'a pseudorange_ins_qkf" where
  "init_attitude attitude attitude_error f =
     clear_covariance_block 3 attitude_error
       (f \<lparr> avg_state := (avg_state f) \<lparr> orientation := attitude \<rparr> \<rparr>)"

definition init_velocity ::
  "'a::{zero,numeral,minus,uminus,times,inverse,abs,ord} vec \<Rightarrow> 'a vec
     \<Rightarrow> 'a pseudorange_ins_qkf \<Rightarrow> 'a pseudorange_ins_qkf" where
  "init_velocity vel vel_error f =
     clear_covariance_block 6 (as_diagonal vel_error)
       (f \<lparr> avg_state := (avg_state f) \<lparr> velocity := vel \<rparr> \<rparr>)"

definition init_position ::
  "'a::{zero,numeral,minus,uminus,times,inverse,abs,ord} vec \<Rightarrow> 'a vec
     \<Rightarrow> 'a pseudorange_ins_qkf \<Rightarrow> 'a pseudorange_ins_qkf" where
  "init_position pos pos_error f =
     clear_covariance_block 12 (as_diagonal pos_error)
       (f \<lparr> avg_state := (avg_state f) \<lparr> position := pos \<rparr> \<rparr>)"

section \<open>Applying an error vector to the mean\<close>

definition apply_kalman_vec_update_12 ::
  "'a::{zero,numeral,minus,uminus,times,inverse,abs,ord} quaternion_ops \<Rightarrow> 'a vec
     \<Rightarrow> 'a state \<Rightarrow> 'a quat \<times> 'a state" where
  \<comment> \<open>the overload for \<^verbatim>\<open>Matrix<float, 12, 1>\<close>; it returns \<^verbatim>\<open>posterior_update\<close>\<close>
  "apply_kalman_vec_update_12 Q update s =
     (let posterior_update = q_exp Q (segment 3 update)
      in (posterior_update,
          s \<lparr> gyro_bias := vadd (gyro_bias s) (segment 0 update),
              orientation :=
                q_incremental_normalized Q (quat_mul (orientation s) posterior_update),
              velocity := vadd (velocity s) (segment 6 update),
              accel_bias := vadd (accel_bias s) (segment 9 update) \<rparr>))"

definition apply_kalman_vec_update_4 ::
  "'a::{zero,numeral,minus,uminus,times,inverse,abs,ord} vec \<Rightarrow> 'a state
     \<Rightarrow> 'a state" where
  \<comment> \<open>the overload for \<^verbatim>\<open>Matrix<float, 4, 1>\<close>\<close>
  "apply_kalman_vec_update_4 update s =
     s \<lparr> position := vadd (position s) (segment 0 update),
         clock_bias := clock_bias s + update 3 \<rparr>"

section \<open>Propagation\<close>

definition ssyr2k ::
  "'a::{zero,numeral,minus,uminus,times,inverse,abs,ord} mat \<Rightarrow> nat
     \<Rightarrow> nat \<Rightarrow> 'a mat \<Rightarrow> 'a mat \<Rightarrow> nat \<Rightarrow> nat \<Rightarrow> 'a mat" where
  "ssyr2k dst dst_row dst_col mult src src_row src_col =
     add_block3 dst_row dst_col
       (madd (mm3 mult (block src_row src_col src))
             (mm3 (block src_col src_row src) (mtranspose mult))) dst"

definition sgemmm ::
  "'a::{zero,numeral,minus,uminus,times,inverse,abs,ord} mat \<Rightarrow> nat
     \<Rightarrow> nat \<Rightarrow> 'a mat \<Rightarrow> 'a mat \<Rightarrow> nat \<Rightarrow> nat \<Rightarrow> 'a mat" where
  "sgemmm dst dst_row dst_col mult src src_row src_col =
     add_block3 dst_row dst_col
       (mm3 (mm3 mult (block src_row src_col src)) (mtranspose mult)) dst"

definition sgemmm_diag ::
  "'a::{zero,numeral,minus,uminus,times,inverse,abs,ord} mat \<Rightarrow> nat
     \<Rightarrow> 'a mat \<Rightarrow> 'a mat \<Rightarrow> nat \<Rightarrow> 'a mat" where
  \<comment> \<open>the five-argument overload of \<^verbatim>\<open>sgemmm\<close>\<close>
  "sgemmm_diag dst dst_diag mult src src_diag =
     sgemmm dst dst_diag dst_diag mult src src_diag src_diag"

definition sgemm ::
  "'a::{zero,numeral,minus,uminus,times,inverse,abs,ord} mat \<Rightarrow> nat
     \<Rightarrow> nat \<Rightarrow> 'a mat \<Rightarrow> 'a mat \<Rightarrow> nat \<Rightarrow> nat \<Rightarrow> 'a mat" where
  "sgemm dst dst_row dst_col mult src src_row src_col =
     add_block3 dst_row dst_col (mm3 (block src_row src_col src) (mtranspose mult)) dst"

text \<open>
  The blockwise covariance update of \<^verbatim>\<open>predict_ecef\<close> (the branch \<^verbatim>\<open>#if 1\<close>).
  \<open>P\<close> is the copy of the covariance taken on entry.  \<open>propagate_blocks\<close> is
  \<^verbatim>\<open>this->cov\<close> after the block updates, which write the diagonal blocks and the
  blocks above them; \<open>propagate_cov\<close> is \<^verbatim>\<open>this->cov\<close> after the loop that copies
  the six blocks below the diagonal from the ones above.
\<close>

definition propagate_blocks ::
  "'a::{zero,numeral,minus,uminus,times,inverse,abs,ord} mat \<Rightarrow> 'a mat
     \<Rightarrow> 'a mat \<Rightarrow> 'a mat" where
  "propagate_blocks dtR dtQ P =
     (let C = P;
          C = sgemm C 0 3 dtR P 0 0;
          C = sgemm C 0 6 dtQ P 0 3;
          C = sgemm C 0 6 dtR P 0 9;
          C = sgemmm_diag C 3 dtR P 0;
          C = ssyr2k C 3 3 dtR P 0 3;
          C = add_block3 3 6
                (madd (mm3 dtR (block 0 6 P))
                      (mm3 (mm3 dtR (block 0 3 P)) (mtranspose dtQ))) C;
          C = sgemmm C 3 6 dtR P 0 9;
          C = sgemm C 3 6 dtR P 3 9;
          C = sgemm C 3 6 dtQ P 3 3;
          C = add_block3 3 9 (mm3 dtR (block 0 9 P)) C;
          C = ssyr2k C 6 6 dtQ P 3 6;
          C = ssyr2k C 6 6 dtR P 9 6;
          tmp = mm3 dtR (mtranspose (mm3 dtQ (block 3 9 P)));
          C = add_block3 6 6 (madd tmp (mtranspose tmp)) C;
          C = sgemmm_diag C 6 dtQ P 3;
          C = sgemmm_diag C 6 dtR P 9;
          C = add_block3 6 9
                (madd (mm3 dtQ (block 3 9 P)) (mm3 dtR (block 9 9 P))) C
      in C)"

definition block_addr :: "(nat \<times> nat) list" where
  "block_addr = [(3, 0), (6, 0), (6, 3), (9, 0), (9, 3), (9, 6)]"

definition mirror_block :: "nat \<times> nat \<Rightarrow> 'a mat \<Rightarrow> 'a mat" where
  \<comment> \<open>one turn of the loop\<close>
  "mirror_block a C =
     (let row = fst a; col = snd a
      in set_block 3 3 row col (mtranspose (block col row C)) C)"

definition propagate_cov ::
  "'a::{zero,numeral,minus,uminus,times,inverse,abs,ord} mat \<Rightarrow> 'a mat
     \<Rightarrow> 'a mat \<Rightarrow> 'a mat" where
  "propagate_cov dtR dtQ P = fold mirror_block block_addr (propagate_blocks dtR dtQ P)"

definition predict_ecef ::
  "'a::{zero,numeral,minus,uminus,times,inverse,abs,ord} scalar_ops \<Rightarrow> 'a quaternion_ops \<Rightarrow> 'a vec \<Rightarrow> 'a vec \<Rightarrow> 'a
     \<Rightarrow> 'a pseudorange_ins_qkf \<Rightarrow> 'a pseudorange_ins_qkf" where
  "predict_ecef S Q gyro_meas accel_meas dt f =
     (let attitude_conj = conjugate (orientation (avg_state f));
          accel_sensible_ecef = rotate attitude_conj (vsub accel_meas (accel_bias (avg_state f)));
          accel_gravity = vmuls (normalized3 S (position (avg_state f))) (accel_gravity_norm f);
          st = (avg_state f) \<lparr> inertial_accel := vsub accel_sensible_ecef accel_gravity \<rparr>;
          accel_cov = q_cross Q (vneg accel_sensible_ecef);
          P = cov f;
          dtR = smulm (- dt) (toRotationMatrix attitude_conj);
          dtQ = smulm (- dt) accel_cov;
          C = propagate_cov dtR dtQ P;
          PT = add_block3 0 0 (smulm (dt * dt) (block 6 6 P)) (pt_cov f);
          C = add_block3 0 0 (mmuls (as_diagonal (gyro_stability_noise f)) dt) C;
          C = add_block3 3 3 (mmuls (as_diagonal (gyro_white_noise f)) dt) C;
          C = add_block3 6 6 (mmuls (as_diagonal (accel_white_noise f)) dt) C;
          C = add_block3 9 9 (mmuls (as_diagonal (accel_stability_noise f)) dt) C;
          PT = add_block3 0 0
                 (mmuls (mmuls (mmuls (as_diagonal (accel_white_noise f)) 0.5) dt) dt) PT;
          PT = set_coeff 3 3 (PT 3 3 + clock_stability_noise f * dt) PT;
          accel = inertial_accel st;
          st = st \<lparr> body_rate := vsub gyro_meas (gyro_bias st) \<rparr>;
          orientation' = quat_mul (q_exp Q (vmuls (body_rate st) dt)) (orientation st);
          position' = vadd (vadd (position st) (vmuls (velocity st) dt))
                           (vmuls (vmuls (smulv 0.5 accel) dt) dt);
          velocity' = vadd (velocity st) (vmuls accel dt);
          st = st \<lparr> position := position', velocity := velocity', orientation := orientation' \<rparr>
      in f \<lparr> avg_state := st, cov := C, pt_cov := PT \<rparr>)"

definition predict_ecef_asserted ::
  "'a::{zero,numeral,minus,uminus,times,inverse,abs,ord} scalar_ops \<Rightarrow> 'a quaternion_ops \<Rightarrow> 'a vec \<Rightarrow> 'a vec \<Rightarrow> 'a
     \<Rightarrow> 'a pseudorange_ins_qkf \<Rightarrow> fault + 'a pseudorange_ins_qkf" where
  \<comment> \<open>with the \<^verbatim>\<open>assert(invariants_met())\<close> that ends the function\<close>
  "predict_ecef_asserted S Q gyro_meas accel_meas dt f =
     (let f' = predict_ecef S Q gyro_meas accel_meas dt f
      in asserting (invariants_met S f') f')"


section \<open>Observations\<close>

subsection \<open>A direction vector\<close>

definition h_trans_col0 ::
  "'a::{zero,numeral,minus,uminus,times,inverse,abs,ord} scalar_ops \<Rightarrow> 'a vec
     \<Rightarrow> 'a vec \<Rightarrow> 'a vec" where
  "h_trans_col0 S ref v_residual =
     (let eps = op_sqrt S (const_epsilon S * 1000)
      in normalized3 S
           (cross3 ref
              (if norm3 S (vsub ref (normalized3 S v_residual)) > eps
               then normalized3 S v_residual
               else if \<bar>dot3 ref (vec3 1 0 0)\<bar> < 707 / 1000 then vec3 1 0 0
               else vec3 0 1 0)))"

definition h_trans_col1 ::
  "'a::{zero,numeral,minus,uminus,times,inverse,abs,ord} vec \<Rightarrow> 'a vec
     \<Rightarrow> 'a vec" where
  "h_trans_col1 ref col0 = vneg (cross3 ref col0)"

definition obs_vector_step ::
  "'a::{zero,numeral,minus,uminus,times,inverse,abs,ord} \<Rightarrow> 'a vec
     \<Rightarrow> 'a vec \<Rightarrow> 'a vec \<times> 'a mat \<Rightarrow> 'a vec \<times> 'a mat" where
  \<comment> \<open>one turn of the loop, for the column \<open>h\<close> of \<^verbatim>\<open>h_trans\<close>\<close>
  "obs_vector_step error v_residual h uc =
     (let update = fst uc; C = snd uc;
          obs_error = error;
          obs_cov = dot3 (vm3 h (block 3 3 C)) h;
          gain = vdivs (mv3 (block 0 3 C) h) (obs_error + obs_cov)
      in (vadd update (mv3 (outer gain h) v_residual),
          msub C (mm3 (outer gain h) (block 3 0 C))))"

definition obs_vector ::
  "'a::{zero,numeral,minus,uminus,times,inverse,abs,ord} scalar_ops \<Rightarrow> 'a quaternion_ops \<Rightarrow> 'a vec \<Rightarrow> 'a vec \<Rightarrow> 'a
     \<Rightarrow> 'a pseudorange_ins_qkf \<Rightarrow> 'a pseudorange_ins_qkf" where
  "obs_vector S Q ref obs error f =
     (let obs_ref = rotate (conjugate (orientation (avg_state f))) obs;
          v_residual = q_log Q (q_setFromTwoVectors Q ref obs_ref);
          col0 = h_trans_col0 S ref v_residual;
          col1 = h_trans_col1 ref col0;
          uc = fold (obs_vector_step error v_residual) [col0, col1] (vzero, cov f)
      in f \<lparr> avg_state := snd (apply_kalman_vec_update_12 Q (fst uc) (avg_state f)),
             cov := snd uc \<rparr>)"

definition obs_vector_asserted ::
  "'a::{zero,numeral,minus,uminus,times,inverse,abs,ord} scalar_ops \<Rightarrow> 'a quaternion_ops \<Rightarrow> 'a vec \<Rightarrow> 'a vec \<Rightarrow> 'a
     \<Rightarrow> 'a pseudorange_ins_qkf \<Rightarrow> fault + 'a pseudorange_ins_qkf" where
  \<comment> \<open>with the three assertions of the function\<close>
  "obs_vector_asserted S Q ref obs error f =
     (let obs_ref = rotate (conjugate (orientation (avg_state f))) obs;
          v_residual = q_log Q (q_setFromTwoVectors Q ref obs_ref);
          col0 = h_trans_col0 S ref v_residual;
          col1 = h_trans_col1 ref col0;
          f' = obs_vector S Q ref obs error f
      in if hasNaN_vec S 3 col0 \<or> hasNaN_vec S 3 col1 then Inl Assertion_failed
         else if \<not> q_isUnitary Q (\<lambda>i j. if j = 0 then col0 i else col1 i)
         then Inl Assertion_failed
         else asserting (invariants_met S f') f')"

subsection \<open>Pseudorange and deltarange\<close>

text \<open>
  Both functions take the accumulator by reference and update it; the model returns
  the new accumulator with the new filter.
\<close>

definition obs_gps_pseudorange ::
  "'a::{zero,numeral,minus,uminus,times,inverse,abs,ord} scalar_ops \<Rightarrow> 'a vec \<Rightarrow> 'a vec \<Rightarrow> 'a \<Rightarrow> 'a
     \<Rightarrow> 'a pseudorange_ins_qkf \<Rightarrow> 'a vec \<times> 'a pseudorange_ins_qkf" where
  "obs_gps_pseudorange S accum sat_pos pseudorange error f =
     (let directiond = vsub (vadd (position (avg_state f)) (segment 0 accum)) sat_pos;
          prediction = norm3 S directiond;
          directiond = vmuls directiond (1 / prediction);
          prediction = prediction + (clock_bias (avg_state f) + accum 3);
          direction = (\<lambda>i. if i < 3 then directiond i else 1);
          innovation_cov = dot4 direction (mv4 (pt_cov f) direction);
          residual = prediction - pseudorange;
          innovation_cov_inverse = 1 / (innovation_cov + error);
          gain = vmuls (mv4 (pt_cov f) direction) innovation_cov_inverse
      in (vadd accum (vmuls gain residual),
          f \<lparr> pt_cov := msub (pt_cov f) (outer gain (vm4 direction (pt_cov f))) \<rparr>))"

definition obs_gps_deltarange ::
  "'a::{zero,numeral,minus,uminus,times,inverse,abs,ord} scalar_ops \<Rightarrow> 'a vec \<Rightarrow> 'a vec \<Rightarrow> 'a \<Rightarrow> 'a
     \<Rightarrow> 'a pseudorange_ins_qkf \<Rightarrow> 'a vec \<times> 'a pseudorange_ins_qkf" where
  "obs_gps_deltarange S accum sat_vel deltarange error f =
     (let directiond = vsub (vadd (velocity (avg_state f)) (segment 6 accum)) sat_vel;
          prediction = norm3 S directiond;
          directiond = vmuls directiond (1 / prediction);
          direction = directiond;
          innovation_cov = dot3 direction (mv3 (block 6 6 (cov f)) direction);
          residual = prediction - deltarange;
          innovation_cov_inverse = 1 / (innovation_cov + error);
          gain = vmuls (mv3 (block 0 6 (cov f)) direction) innovation_cov_inverse
      in (vadd accum (vmuls gain residual),
          f \<lparr> cov := msub (cov f) (outer gain (vm3 direction (block 6 0 (cov f)))) \<rparr>))"

subsection \<open>Position and velocity report\<close>

text \<open>
  The two loops of \<^verbatim>\<open>obs_gps_pv_report\<close>, one turn each.  In the position loop
  \<open>C\<close> is the member \<^verbatim>\<open>cov\<close>, the 12x12 covariance, which the loop reads as the
  source does: \<^verbatim>\<open>pt_cov -= gain * cov.block<1, 4>(i, 0)\<close>.  The local
  \<^verbatim>\<open>innovation_cov\<close> of either part is never read and is left out.
\<close>

definition pv_position_step ::
  "'a::{zero,numeral,minus,uminus,times,inverse,abs,ord} vec \<Rightarrow> 'a vec
     \<Rightarrow> 'a mat \<Rightarrow> nat \<Rightarrow> 'a vec \<times> 'a mat \<Rightarrow> 'a vec \<times> 'a mat" where
  "pv_position_step residual p_error C i up =
     (let update = fst up; PT = snd up;
          innovation_cov_inv = 1 / (PT i i + p_error i);
          gain = vmuls (\<lambda>a. block 0 i PT a 0) innovation_cov_inv
      in (vadd update (vmuls gain (residual i - update i)),
          msub PT (outer gain (\<lambda>b. block i 0 C 0 b))))"

definition pv_velocity_step ::
  "'a::{zero,numeral,minus,uminus,times,inverse,abs,ord} vec \<Rightarrow> 'a vec
     \<Rightarrow> nat \<Rightarrow> 'a vec \<times> 'a mat \<Rightarrow> 'a vec \<times> 'a mat" where
  "pv_velocity_step residual v_error i uc =
     (let update = fst uc; C = snd uc;
          innovation_cov_inv = 1 / (C (6 + i) (6 + i) + v_error i);
          gain = vmuls (\<lambda>a. block 0 (6 + i) C a 0) innovation_cov_inv
      in (vadd update (vmuls gain (residual i - update (6 + i))),
          msub C (outer gain (\<lambda>b. block (6 + i) 0 C 0 b))))"

definition obs_gps_pv_report ::
  "'a::{zero,numeral,minus,uminus,times,inverse,abs,ord} quaternion_ops \<Rightarrow> 'a vec \<Rightarrow> 'a vec \<Rightarrow> 'a vec \<Rightarrow> 'a vec
     \<Rightarrow> 'a pseudorange_ins_qkf \<Rightarrow> 'a pseudorange_ins_qkf" where
  "obs_gps_pv_report Q pos vel p_error v_error f =
     (let residual = vsub pos (position (avg_state f));
          up = fold (pv_position_step residual p_error (cov f)) [0, 1, 2] (vzero, pt_cov f);
          f = f \<lparr> avg_state := apply_kalman_vec_update_4 (fst up) (avg_state f),
                  pt_cov := snd up \<rparr>;
          residual = vsub vel (velocity (avg_state f));
          uc = fold (pv_velocity_step residual v_error) [0, 1, 2] (vzero, cov f)
      in f \<lparr> avg_state := snd (apply_kalman_vec_update_12 Q (fst uc) (avg_state f)),
             cov := snd uc \<rparr>)"

section \<open>Diagnostics\<close>

definition sigma_point_difference ::
  "'a::{zero,numeral,minus,uminus,times,inverse,abs,ord} quaternion_ops
     \<Rightarrow> 'a state \<Rightarrow> 'a state \<Rightarrow> 'a vec" where
  \<comment> \<open>the 16 coefficients of \<^verbatim>\<open>ret\<close>, each of which the function assigns\<close>
  "sigma_point_difference Q mean point =
     (let ret = vzero;
          ret = set_segment 3 0 (vsub (gyro_bias point) (gyro_bias mean)) ret;
          ret =
            (if coeffs_dot (orientation mean) (orientation point) < 0 then
               (let neg_orientation = coeffs_negated (orientation point)
                in set_segment 3 3
                     (q_log Q (quat_mul (conjugate (orientation mean)) neg_orientation)) ret)
             else
               set_segment 3 3
                 (q_log Q (quat_mul (conjugate (orientation mean)) (orientation point))) ret);
          ret = set_segment 3 6 (vsub (velocity point) (velocity mean)) ret;
          ret = set_segment 3 9 (vsub (accel_bias point) (accel_bias mean)) ret;
          ret = set_segment 3 12 (vsub (position point) (position mean)) ret;
          ret = set_segment 1 15 (\<lambda>_. clock_bias point - clock_bias mean) ret
      in ret)"

definition sigma_point_difference_asserted ::
  "'a::{zero,numeral,minus,uminus,times,inverse,abs,ord} scalar_ops
     \<Rightarrow> 'a quaternion_ops \<Rightarrow> 'a state \<Rightarrow> 'a state \<Rightarrow> fault + 'a vec" where
  \<comment> \<open>with \<^verbatim>\<open>assert(!hasNaN(ret))\<close>\<close>
  "sigma_point_difference_asserted S Q mean point =
     (let ret = sigma_point_difference Q mean point
      in asserting (\<not> hasNaN_vec S 16 ret) ret)"


section \<open>What the specification says, and concrete objects\<close>

text \<open>
  Symmetry of the leading \<open>n\<close> by \<open>n\<close> part of a matrix, as a test that can be run.
\<close>

definition is_symmetric :: "nat \<Rightarrow> 'a mat \<Rightarrow> bool" where
  "is_symmetric n M = list_all (\<lambda>i. list_all (\<lambda>j. M i j = M j i) [0..<n]) [0..<n]"

text \<open>
  The position loop as the specification asks for it (the scalar Kalman update, with
  row \<open>i\<close> of \<open>pt_cov\<close>): \<open>pv_position_step\<close> with the row taken from \<open>PT\<close>.
\<close>

definition pv_position_step_spec ::
  "'a::{zero,numeral,minus,uminus,times,inverse,abs,ord} vec \<Rightarrow> 'a vec
     \<Rightarrow> nat \<Rightarrow> 'a vec \<times> 'a mat \<Rightarrow> 'a vec \<times> 'a mat" where
  "pv_position_step_spec residual p_error i up =
     (let update = fst up; PT = snd up;
          innovation_cov_inv = 1 / (PT i i + p_error i);
          gain = vmuls (\<lambda>a. block 0 i PT a 0) innovation_cov_inv
      in (vadd update (vmuls gain (residual i - update i)),
          msub PT (outer gain (\<lambda>b. block i 0 PT 0 b))))"

text \<open>The real number that a finite \<open>ieee\<close> value stands for.\<close>

fun fin_value :: "ieee \<Rightarrow> real" where
  "fin_value (Fin a) = a"
| "fin_value x = 0"

text \<open>
  An object whose members are all zero, for the memory that the constructor finds, and
  the filter that the constructor makes of it.
\<close>

definition blank_state :: "'a::zero state" where
  "blank_state =
     \<lparr> gyro_bias = vzero, orientation = \<lparr> qw = 0, qx = 0, qy = 0, qz = 0 \<rparr>,
       position = vzero, velocity = vzero, accel_bias = vzero, clock_bias = 0,
       inertial_accel = vzero, body_rate = vzero \<rparr>"

definition blank_filter :: "'a::zero pseudorange_ins_qkf" where
  "blank_filter =
     \<lparr> avg_state = blank_state, cov = mzero, pt_cov = mzero,
       gyro_stability_noise = vzero, gyro_white_noise = vzero, accel_white_noise = vzero,
       accel_stability_noise = vzero, clock_stability_noise = 0, accel_gravity_norm = 0 \<rparr>"

definition default_filter ::
  "'a::{zero,numeral,minus,uminus,times,inverse,abs,ord} scalar_ops
     \<Rightarrow> 'a pseudorange_ins_qkf" where
  "default_filter S = pseudorange_ins_qkf_ctor S blank_filter"

text \<open>
  A stand-in for the functions whose code is not in the file, used only to write closed
  examples; every general theorem below is for an arbitrary \<open>Q\<close>.  It is the first-order
  form of each map: \<open>exp\<close> of the zero vector is the identity quaternion and \<open>log\<close> of
  the identity quaternion is the zero vector, exactly.
\<close>

definition first_order_ops ::
  "'a::{zero,numeral,minus,uminus,times,inverse,abs,ord} scalar_ops
     \<Rightarrow> 'a quaternion_ops" where
  "first_order_ops S =
     \<lparr> q_exp = (\<lambda>v. \<lparr> qw = 1, qx = v 0 / 2, qy = v 1 / 2, qz = v 2 / 2 \<rparr>),
       q_log = (\<lambda>q. vec3 (2 * qx q) (2 * qy q) (2 * qz q)),
       q_incremental_normalized =
         (\<lambda>q. \<lparr> qw = qw q / quat_norm S q, qx = qx q / quat_norm S q,
                 qy = qy q / quat_norm S q, qz = qz q / quat_norm S q \<rparr>),
       q_cross = (\<lambda>v i j.
          if i = 0 then (if j = 0 then 0 else if j = 1 then - v 2 else v 1)
          else if i = 1 then (if j = 0 then v 2 else if j = 1 then 0 else - v 0)
          else (if j = 0 then - v 1 else if j = 1 then v 0 else 0)),
       q_setFromTwoVectors = (\<lambda>a b. \<lparr> qw = 1, qx = 0, qy = 0, qz = 0 \<rparr>),
       q_isUnitary = (\<lambda>M. True) \<rparr>"


text \<open>
  A filter whose 12x12 covariance has a non-zero first row and whose \<open>pt_cov\<close> is the
  identity: both matrices are symmetric and positive semi-definite, and every coefficient
  is a small integer, which \<^verbatim>\<open>float\<close> holds exactly.
\<close>

definition pv_example :: "real pseudorange_ins_qkf" where
  "pv_example = blank_filter \<lparr> cov := (\<lambda>i j. 1), pt_cov := midentity \<rparr>"

text \<open>
  A filter whose coefficients are all finite and whose orientation is
  \<open>(129 / 128, 0, 0, 0)\<close>, of norm \<open>1 + 2 ^ -7\<close>.
\<close>

definition norm_example :: "ieee pseudorange_ins_qkf" where
  "norm_example =
     blank_filter \<lparr> avg_state :=
       blank_state \<lparr> orientation := \<lparr> qw = Fin (129 / 128), qx = 0, qy = 0, qz = 0 \<rparr> \<rparr> \<rparr>"

text \<open>
  The blocks of the 12x12 covariance that lie below the diagonal blocks: the six blocks
  of \<open>block_addr\<close>.
\<close>

definition below_diagonal :: "nat \<Rightarrow> nat \<Rightarrow> bool" where
  "below_diagonal i j \<longleftrightarrow>
     (3 \<le> i \<and> i < 6 \<and> j < 3) \<or> (6 \<le> i \<and> i < 9 \<and> j < 6) \<or> (9 \<le> i \<and> i < 12 \<and> j < 9)"

text \<open>
  The default filter placed at \<open>(0, 0, 1)\<close>, with gravity \<open>10\<close>; and the same filter
  with the coefficient \<open>(3, 0)\<close> of \<open>cov\<close> set to \<open>1\<close>, which makes \<open>cov\<close> asymmetric.
\<close>

definition unit_z_filter ::
  "'a::{zero,numeral,minus,uminus,times,inverse,abs,ord} scalar_ops
     \<Rightarrow> 'a pseudorange_ins_qkf" where
  "unit_z_filter S =
     (init_position (vec3 0 0 1) (vec3 1 1 1) (default_filter S)) \<lparr> accel_gravity_norm := 10 \<rparr>"

definition skew_example :: "real pseudorange_ins_qkf" where
  "skew_example = (unit_z_filter real_ops) \<lparr> cov := set_coeff 3 0 1 (cov (unit_z_filter real_ops)) \<rparr>"

text \<open>
  A 3x3 matrix that is not symmetric: \<open>1\<close> at \<open>(0, 1)\<close> and zero elsewhere.
\<close>

definition skew_error :: "real mat" where
  "skew_error = set_coeff 0 1 1 mzero"

section \<open>The arithmetic of \<open>ieee\<close>\<close>

lemma ieee_add_assoc: "(x + y) + z = x + (y + (z::ieee))"
  by (cases x; cases y; cases z) simp_all

instance ieee :: numeral
  by standard (rule ieee_add_assoc)

lemma numeral_ieee: "(numeral n :: ieee) = Fin (numeral n)"
  by (induction n) (simp_all only: numeral.simps one_ieee_def plus_ieee.simps)

lemma Fin_minus [simp]: "Fin a - Fin b = Fin (a - b)"
  by (simp add: minus_ieee_def)

lemma Fin_divide [simp]: "Fin a / Fin b =
  (if b = 0 then (if a = 0 then NaN else if 0 < a then PInf else MInf) else Fin (a / b))"
  by (simp add: divide_ieee_def)

lemma NaN_minus [simp]: "NaN - x = NaN" "x - NaN = (NaN::ieee)"
  by (cases x; simp add: minus_ieee_def)+

lemma NaN_plus [simp]: "x + NaN = (NaN::ieee)"
  by (cases x) simp_all

lemma NaN_times [simp]: "x * NaN = (NaN::ieee)"
  by (cases x) simp_all

lemma NaN_divide [simp]: "NaN / x = (NaN::ieee)"
  by (simp add: divide_ieee_def)


section \<open>Initialisation\<close>

lemma clear_cov_inertial:
  fixes f :: "'a::{zero,numeral,minus,uminus,times,inverse,abs,ord} pseudorange_ins_qkf"
  assumes "rowcol \<in> {0, 3, 6, 9}" "i < 12" "j < 12"
  shows "cov (clear_covariance_block rowcol repl f) i j =
           (if rowcol \<le> i \<and> i < rowcol + 3 \<and> rowcol \<le> j \<and> j < rowcol + 3
            then repl (i - rowcol) (j - rowcol)
            else if (rowcol \<le> i \<and> i < rowcol + 3) \<or> (rowcol \<le> j \<and> j < rowcol + 3) then 0
            else cov f i j)"
  using assms by (auto simp: clear_covariance_block_def set_block_def mzero_def)

lemma clear_cov_inertial_frame:
  fixes f :: "'a::{zero,numeral,minus,uminus,times,inverse,abs,ord} pseudorange_ins_qkf"
  assumes "rowcol \<in> {0, 3, 6, 9}"
  shows "pt_cov (clear_covariance_block rowcol repl f) = pt_cov f"
    and "avg_state (clear_covariance_block rowcol repl f) = avg_state f"
  using assms by (auto simp: clear_covariance_block_def)

lemma clear_cov_position:
  fixes f :: "'a::{zero,numeral,minus,uminus,times,inverse,abs,ord} pseudorange_ins_qkf"
  shows "pt_cov (clear_covariance_block 12 repl f) i j =
           (if i < 3 \<and> j < 3 then repl i j else if i = 3 \<and> j = 3 then 300 * 300 else 0)"
    and "cov (clear_covariance_block 12 repl f) = cov f"
    and "avg_state (clear_covariance_block 12 repl f) = avg_state f"
  by (auto simp: clear_covariance_block_def set_block_def mzero_def set_coeff_def Let_def)

text \<open>
  Claim C6.  \<open>clear_covariance_block\<close> with an inertial index \<open>0\<close>, \<open>3\<close>, \<open>6\<close> or \<open>9\<close>
  writes the replacement into the 3x3 diagonal block of \<open>cov\<close> at that offset, zeroes the
  rest of the three rows and of the three columns, and leaves every other coefficient of
  \<open>cov\<close> and all of \<open>pt_cov\<close> as they were.  With the index \<open>12\<close> it makes \<open>pt_cov\<close> the
  replacement in the 3x3 position block, \<open>300 * 300\<close> at \<open>(3, 3)\<close> and zero elsewhere, and
  leaves \<open>cov\<close> as it was.  So after \<open>init_attitude\<close>, \<open>init_velocity\<close> and
  \<open>init_position\<close> the mean holds the given value, the block of the covariance is the
  given error and the cross-covariances of the block are zero.  This holds at every
  scalar type.
\<close>

theorem clear_covariance_block_effect:
  fixes f :: "'a::{zero,numeral,minus,uminus,times,inverse,abs,ord} pseudorange_ins_qkf"
  shows
    "(rowcol \<in> {0, 3, 6, 9} \<longrightarrow>
        (\<forall>i<12. \<forall>j<12. cov (clear_covariance_block rowcol repl f) i j =
           (if rowcol \<le> i \<and> i < rowcol + 3 \<and> rowcol \<le> j \<and> j < rowcol + 3
            then repl (i - rowcol) (j - rowcol)
            else if (rowcol \<le> i \<and> i < rowcol + 3) \<or> (rowcol \<le> j \<and> j < rowcol + 3) then 0
            else cov f i j))
        \<and> pt_cov (clear_covariance_block rowcol repl f) = pt_cov f)
     \<and> (\<forall>i<4. \<forall>j<4. pt_cov (clear_covariance_block 12 repl f) i j =
           (if i < 3 \<and> j < 3 then repl i j else if i = 3 \<and> j = 3 then 300 * 300 else 0))
     \<and> cov (clear_covariance_block 12 repl f) = cov f
     \<and> orientation (avg_state (init_attitude attitude attitude_error f)) = attitude
     \<and> (\<forall>i<12. \<forall>j<12. cov (init_attitude attitude attitude_error f) i j =
           (if 3 \<le> i \<and> i < 6 \<and> 3 \<le> j \<and> j < 6 then attitude_error (i - 3) (j - 3)
            else if (3 \<le> i \<and> i < 6) \<or> (3 \<le> j \<and> j < 6) then 0
            else cov f i j))
     \<and> velocity (avg_state (init_velocity vel vel_error f)) = vel
     \<and> (\<forall>i<12. \<forall>j<12. cov (init_velocity vel vel_error f) i j =
           (if 6 \<le> i \<and> i < 9 \<and> 6 \<le> j \<and> j < 9 then (if i = j then vel_error (i - 6) else 0)
            else if (6 \<le> i \<and> i < 9) \<or> (6 \<le> j \<and> j < 9) then 0
            else cov f i j))
     \<and> position (avg_state (init_position pos pos_error f)) = pos
     \<and> (\<forall>i<4. \<forall>j<4. pt_cov (init_position pos pos_error f) i j =
           (if i < 3 \<and> j < 3 then (if i = j then pos_error i else 0)
            else if i = 3 \<and> j = 3 then 300 * 300 else 0))"
proof -
  have att: "orientation (avg_state (init_attitude attitude attitude_error f)) = attitude"
    by (simp add: init_attitude_def clear_covariance_block_def)
  have vel: "velocity (avg_state (init_velocity vel vel_error f)) = vel"
    by (simp add: init_velocity_def clear_covariance_block_def)
  have pos: "position (avg_state (init_position pos pos_error f)) = pos"
    by (simp add: init_position_def clear_covariance_block_def Let_def)
  have att_cov: "\<forall>i<12. \<forall>j<12. cov (init_attitude attitude attitude_error f) i j =
           (if 3 \<le> i \<and> i < 6 \<and> 3 \<le> j \<and> j < 6 then attitude_error (i - 3) (j - 3)
            else if (3 \<le> i \<and> i < 6) \<or> (3 \<le> j \<and> j < 6) then 0
            else cov f i j)"
    by (auto simp add: init_attitude_def clear_cov_inertial)
  have vel_cov: "\<forall>i<12. \<forall>j<12. cov (init_velocity vel vel_error f) i j =
           (if 6 \<le> i \<and> i < 9 \<and> 6 \<le> j \<and> j < 9 then (if i = j then vel_error (i - 6) else 0)
            else if (6 \<le> i \<and> i < 9) \<or> (6 \<le> j \<and> j < 9) then 0
            else cov f i j)"
    by (auto simp add: init_velocity_def clear_cov_inertial as_diagonal_def)
  have pos_cov: "\<forall>i<4. \<forall>j<4. pt_cov (init_position pos pos_error f) i j =
           (if i < 3 \<and> j < 3 then (if i = j then pos_error i else 0)
            else if i = 3 \<and> j = 3 then 300 * 300 else 0)"
    by (simp add: init_position_def clear_cov_position as_diagonal_def)
  have inertial: "rowcol \<in> {0, 3, 6, 9} \<longrightarrow>
        (\<forall>i<12. \<forall>j<12. cov (clear_covariance_block rowcol repl f) i j =
           (if rowcol \<le> i \<and> i < rowcol + 3 \<and> rowcol \<le> j \<and> j < rowcol + 3
            then repl (i - rowcol) (j - rowcol)
            else if (rowcol \<le> i \<and> i < rowcol + 3) \<or> (rowcol \<le> j \<and> j < rowcol + 3) then 0
            else cov f i j))
        \<and> pt_cov (clear_covariance_block rowcol repl f) = pt_cov f"
    using clear_cov_inertial [of rowcol _ _ repl f] clear_cov_inertial_frame(1) [of rowcol repl f]
    by blast
  have sentinel: "\<forall>i<4. \<forall>j<4. pt_cov (clear_covariance_block 12 repl f) i j =
           (if i < 3 \<and> j < 3 then repl i j else if i = 3 \<and> j = 3 then 300 * 300 else 0)"
    by (simp add: clear_cov_position)
  have sentinel_cov: "cov (clear_covariance_block 12 repl f) = cov f"
    by (rule clear_cov_position)
  show ?thesis
    by (intro conjI) (fact inertial sentinel sentinel_cov att vel pos att_cov vel_cov pos_cov)+
qed

theorem clear_covariance_block_effect_witness:
  "cov (clear_covariance_block 3 (\<lambda>i j. 7) (default_filter real_ops)) 4 5 = 7
   \<and> cov (clear_covariance_block 3 (\<lambda>i j. 7) (default_filter real_ops)) 4 0 = 0
   \<and> cov (clear_covariance_block 3 (\<lambda>i j. 7) (default_filter real_ops)) 7 7 = 100
   \<and> pt_cov (clear_covariance_block 12 (\<lambda>i j. 7) (default_filter real_ops)) 3 3 = 90000
   \<and> cov (init_velocity (vec3 1 2 3) (vec3 4 5 6) (default_filter real_ops)) 7 7 = 5
   \<and> pt_cov (init_position (vec3 1 2 3) (vec3 4 5 6) (default_filter real_ops)) 1 3 = 0"
  using clear_covariance_block_effect [of 3 "\<lambda>i j. 7" "default_filter real_ops" undefined undefined "vec3 1 2 3" "vec3 4 5 6" "vec3 1 2 3" "vec3 4 5 6"]
  by (simp add: default_filter_def pseudorange_ins_qkf_ctor_def Let_def blank_filter_def
      set_block_def set_coeff_def mzero_def mmuls_def midentity_def vec3_def)

section \<open>The scalar GPS updates\<close>

text \<open>
  Claim C7.  \<open>obs_gps_pseudorange\<close> changes the accumulator it is given and \<open>pt_cov\<close>, and
  nothing else of the filter: the mean \<open>avg_state\<close> and \<open>cov\<close> are as before.
  \<open>obs_gps_deltarange\<close> changes its accumulator and \<open>cov\<close>, and nothing else: \<open>avg_state\<close>
  and \<open>pt_cov\<close> are as before.  Neither applies the correction to the mean.  This holds
  at every scalar type.
\<close>

theorem scalar_updates_frame:
  fixes f :: "'a::{zero,numeral,minus,uminus,times,inverse,abs,ord} pseudorange_ins_qkf"
  shows
    "snd (obs_gps_pseudorange S accum4 sat_pos pseudorange error f) =
       f \<lparr> pt_cov := pt_cov (snd (obs_gps_pseudorange S accum4 sat_pos pseudorange error f)) \<rparr>
     \<and> avg_state (snd (obs_gps_pseudorange S accum4 sat_pos pseudorange error f)) = avg_state f
     \<and> cov (snd (obs_gps_pseudorange S accum4 sat_pos pseudorange error f)) = cov f
     \<and> snd (obs_gps_deltarange S accum12 sat_vel deltarange error f) =
       f \<lparr> cov := cov (snd (obs_gps_deltarange S accum12 sat_vel deltarange error f)) \<rparr>
     \<and> avg_state (snd (obs_gps_deltarange S accum12 sat_vel deltarange error f)) = avg_state f
     \<and> pt_cov (snd (obs_gps_deltarange S accum12 sat_vel deltarange error f)) = pt_cov f"
  by (simp add: obs_gps_pseudorange_def obs_gps_deltarange_def Let_def)

section \<open>The default constructor\<close>

text \<open>
  Claim C10.  In exact arithmetic (any ordered field), the constructor makes the mean
  the origin, with zero velocity, the identity attitude, zero gyro and accelerometer
  biases and zero clock bias; \<open>cov\<close> is diagonal, with \<open>(3 * pi / 180)\<^sup>2\<close> on the gyro-bias
  block, \<open>pi\<^sup>2 / 2\<close> on the attitude block, \<open>100\<close> on the velocity block and \<open>0.3\<^sup>2\<close> on the
  accelerometer-bias block; \<open>pt_cov\<close> is diagonal, with \<open>100000\<^sup>2\<close> on the position block
  and \<open>300\<^sup>2\<close> for the clock.  Here \<open>pi\<close> is \<open>const_pi S\<close>, the value of \<^verbatim>\<open>M_PI\<close>.
\<close>

theorem default_constructor:
  fixes S :: "'a::linordered_field scalar_ops"
  shows
    "position (avg_state (pseudorange_ins_qkf_ctor S f0)) = vzero
     \<and> velocity (avg_state (pseudorange_ins_qkf_ctor S f0)) = vzero
     \<and> orientation (avg_state (pseudorange_ins_qkf_ctor S f0)) = quat_identity
     \<and> gyro_bias (avg_state (pseudorange_ins_qkf_ctor S f0)) = vzero
     \<and> accel_bias (avg_state (pseudorange_ins_qkf_ctor S f0)) = vzero
     \<and> clock_bias (avg_state (pseudorange_ins_qkf_ctor S f0)) = 0
     \<and> (\<forall>i<12. \<forall>j<12. cov (pseudorange_ins_qkf_ctor S f0) i j =
           (if i \<noteq> j then 0
            else if i < 3 then (3 * const_pi S / 180)\<^sup>2
            else if i < 6 then (const_pi S)\<^sup>2 / 2
            else if i < 9 then 100
            else (3 / 10)\<^sup>2))
     \<and> (\<forall>i<4. \<forall>j<4. pt_cov (pseudorange_ins_qkf_ctor S f0) i j =
           (if i \<noteq> j then 0 else if i < 3 then 100000\<^sup>2 else 300\<^sup>2))"
  by (auto simp add: pseudorange_ins_qkf_ctor_def Let_def set_block_def set_coeff_def mzero_def
      mmuls_def midentity_def power2_eq_square)

theorem default_constructor_witness:
  "cov (pseudorange_ins_qkf_ctor real_ops blank_filter) 4 4 = pi\<^sup>2 / 2
   \<and> cov (pseudorange_ins_qkf_ctor real_ops blank_filter) 4 5 = 0
   \<and> cov (pseudorange_ins_qkf_ctor real_ops blank_filter) 1 1 = (3 * pi / 180)\<^sup>2
   \<and> pt_cov (pseudorange_ins_qkf_ctor real_ops blank_filter) 2 2 = 10000000000
   \<and> pt_cov (pseudorange_ins_qkf_ctor real_ops blank_filter) 3 3 = 90000"
  using default_constructor [of real_ops blank_filter]
  by (simp add: real_ops_def)

section \<open>The position and velocity report\<close>

lemma pv_report_pt_cov:
  "pt_cov (obs_gps_pv_report Q pos vel p_error v_error f) =
     snd (fold (pv_position_step (vsub pos (position (avg_state f))) p_error (cov f)) [0, 1, 2]
            (vzero, pt_cov f))"
  by (simp add: obs_gps_pv_report_def Let_def)

text \<open>
  Claim C1.  The claim asks that the position loop subtract the gain times row \<open>i\<close> of
  \<open>pt_cov\<close> and read no row of the 12x12 covariance.  The code reads row \<open>i\<close> of \<open>cov\<close>.
  At \<open>pv_example\<close>, with unit measurement errors and a zero residual, the function leaves
  \<open>- 1 / 8\<close> at \<open>(0, 1)\<close> and \<open>- 1 / 4\<close> at \<open>(1, 0)\<close> of \<open>pt_cov\<close>, where the loop that the
  claim describes leaves \<open>0\<close>; and with \<open>cov\<close> replaced by the zero matrix the same call
  leaves \<open>0\<close>, so the result depends on \<open>cov\<close>.
\<close>

theorem pv_report_position_leg_reads_cov:
  "pt_cov (obs_gps_pv_report Q vzero vzero (vec3 1 1 1) (vec3 1 1 1) pv_example) 0 1 = - 1 / 8
   \<and> pt_cov (obs_gps_pv_report Q vzero vzero (vec3 1 1 1) (vec3 1 1 1) pv_example) 1 0 = - 1 / 4
   \<and> snd (fold (pv_position_step_spec (vsub vzero (position (avg_state pv_example))) (vec3 1 1 1))
            [0, 1, 2] (vzero, pt_cov pv_example)) 0 1 = 0
   \<and> pt_cov (obs_gps_pv_report Q vzero vzero (vec3 1 1 1) (vec3 1 1 1)
               (pv_example \<lparr> cov := mzero \<rparr>)) 0 1 = 0"
  by (simp add: pv_report_pt_cov pv_example_def pv_position_step_def pv_position_step_spec_def
      Let_def blank_filter_def blank_state_def vzero_def vsub_def vadd_def vmuls_def msub_def
      outer_def block_def midentity_def mzero_def vec3_def)

section \<open>The invariant check\<close>

lemma ieee_finite_cases: "\<not> ieee_isnan x \<Longrightarrow> \<not> ieee_isinf x \<Longrightarrow> \<exists>a. x = Fin a"
  by (cases x) simp_all

lemma is_real_orientation:
  assumes "is_real ieee_ops f"
  shows "\<exists>w x y z. orientation (avg_state f) = \<lparr> qw = Fin w, qx = Fin x, qy = Fin y, qz = Fin z \<rparr>"
proof -
  let ?q = "orientation (avg_state f)"
  from assms have "\<not> hasNaN_quat ieee_ops ?q" "\<not> hasInf_quat ieee_ops ?q"
    by (simp_all add: is_real_def state_is_real_def has_nan_def has_inf_def)
  then obtain w x y z where "qw ?q = Fin w" "qx ?q = Fin x" "qy ?q = Fin y" "qz ?q = Fin z"
    using ieee_finite_cases [of "qw ?q"] ieee_finite_cases [of "qx ?q"]
      ieee_finite_cases [of "qy ?q"] ieee_finite_cases [of "qz ?q"]
    by (auto simp: hasNaN_quat_def hasInf_quat_def ieee_ops_def)
  then have "?q = \<lparr> qw = Fin w, qx = Fin x, qy = Fin y, qz = Fin z \<rparr>"
    by (cases ?q) simp
  then show ?thesis by blast
qed

lemma sqrt_eps_bounds: "0 < sqrt (1 / 2 ^ 23 :: real)" "sqrt (1 / 2 ^ 23 :: real) < 1"
  by (simp_all add: real_sqrt_lt_1_iff)

lemma recip_window:
  fixes n s :: real
  assumes "0 \<le> n" "0 < s" "s < 1"
  shows "(n \<noteq> 0 \<and> \<bar>1 - 1 / n\<bar> < s) \<longleftrightarrow> (1 / (1 + s) < n \<and> n < 1 / (1 - s))"
proof (cases "n = 0")
  case True
  with assms show ?thesis by simp
next
  case False
  with assms have n: "0 < n" by simp
  have "\<bar>1 - 1 / n\<bar> < s \<longleftrightarrow> 1 - s < 1 / n \<and> 1 / n < 1 + s" by auto
  also have "1 - s < 1 / n \<longleftrightarrow> n < 1 / (1 - s)"
    using n assms by (simp add: field_simps)
  also have "1 / n < 1 + s \<longleftrightarrow> 1 / (1 + s) < n"
    using n assms by (simp add: field_simps)
  finally show ?thesis using False by auto
qed

lemma quat_norm_fin:
  "quat_norm ieee_ops \<lparr> qw = Fin w, qx = Fin x, qy = Fin y, qz = Fin z \<rparr> =
     Fin (sqrt (x * x + y * y + z * z + w * w))"
proof -
  have "\<not> x * x + y * y + z * z + w * w < 0"
    by (simp add: not_less add_nonneg_nonneg)
  then show ?thesis
    by (simp add: quat_norm_def coeffs_dot_def ieee_ops_def)
qed

lemma norm_check_fin:
  assumes "0 \<le> n"
  shows "(\<bar>1 - 1 / Fin n\<bar> < ieee_sqrt (Fin (1 / 2 ^ 23)))
         \<longleftrightarrow> (1 / (1 + sqrt (1 / 2 ^ 23)) < n \<and> n < 1 / (1 - sqrt (1 / 2 ^ 23)))"
proof -
  have "(\<bar>1 - 1 / Fin n\<bar> < ieee_sqrt (Fin (1 / 2 ^ 23)))
        \<longleftrightarrow> (n \<noteq> 0 \<and> \<bar>1 - 1 / n\<bar> < sqrt (1 / 2 ^ 23))"
    by (simp add: one_ieee_def minus_ieee_def)
  then show ?thesis
    using recip_window [OF assms sqrt_eps_bounds] by simp
qed

text \<open>
  Claim C3, as amended.  On \<open>ieee\<close> scalars, \<open>invariants_met\<close> holds exactly when no
  coefficient of the state or of the two covariances is NaN or infinite and the norm \<open>n\<close>
  of the orientation satisfies \<open>\<bar>1 - 1 / n\<bar> < sqrt eps\<close>, that is
  \<open>1 / (1 + sqrt eps) < n < 1 / (1 - sqrt eps)\<close>, where \<open>eps = 2 ^ -23\<close> is the epsilon of
  \<^verbatim>\<open>float\<close>.  The tolerance is \<open>sqrt eps\<close>, not \<open>sqrt (1000 * eps)\<close>, and it bounds
  \<open>1 - 1 / n\<close>.
\<close>

theorem invariants_met_norm_window:
  "invariants_met ieee_ops f \<longleftrightarrow>
     (is_real ieee_ops f
      \<and> 1 / (1 + sqrt (1 / 2 ^ 23))
          < sqrt ((fin_value (qx (orientation (avg_state f))))\<^sup>2 + (fin_value (qy (orientation (avg_state f))))\<^sup>2
                  + (fin_value (qz (orientation (avg_state f))))\<^sup>2 + (fin_value (qw (orientation (avg_state f))))\<^sup>2)
      \<and> sqrt ((fin_value (qx (orientation (avg_state f))))\<^sup>2 + (fin_value (qy (orientation (avg_state f))))\<^sup>2
                  + (fin_value (qz (orientation (avg_state f))))\<^sup>2 + (fin_value (qw (orientation (avg_state f))))\<^sup>2)
          < 1 / (1 - sqrt (1 / 2 ^ 23)))"
proof (cases "is_real ieee_ops f")
  case False
  then show ?thesis by (simp add: invariants_met_def)
next
  case True
  then obtain w x y z where q: "orientation (avg_state f) = \<lparr> qw = Fin w, qx = Fin x, qy = Fin y, qz = Fin z \<rparr>"
    using is_real_orientation by blast
  have eps: "op_sqrt ieee_ops (const_epsilon ieee_ops) = ieee_sqrt (Fin (1 / 2 ^ 23))"
    by (simp add: ieee_ops_def)
  show ?thesis
    using True norm_check_fin [of "sqrt (x * x + y * y + z * z + w * w)"]
    by (simp add: invariants_met_def q quat_norm_fin eps power2_eq_square)
qed

lemma is_real_norm_example: "is_real ieee_ops norm_example"
  by (simp add: is_real_def state_is_real_def has_nan_def has_inf_def hasNaN_mat_def hasInf_mat_def
      hasNaN_vec_def hasInf_vec_def hasNaN_quat_def hasInf_quat_def list_ex_iff norm_example_def
      blank_filter_def blank_state_def mzero_def vzero_def ieee_ops_def zero_ieee_def)

text \<open>
  Claim C3 as stated fails: every coefficient of \<open>norm_example\<close> is finite and its norm
  differs from one by \<open>1 / 128\<close>, which is below \<open>sqrt (1000 * eps)\<close>, yet the check fails.
\<close>

theorem invariants_met_threshold_counterexample:
  "is_real ieee_ops norm_example
   \<and> quat_norm ieee_ops (orientation (avg_state norm_example)) = Fin (129 / 128)
   \<and> \<bar>129 / 128 - 1\<bar> \<le> sqrt (1000 * (1 / 2 ^ 23) :: real)
   \<and> \<not> invariants_met ieee_ops norm_example"
proof -
  have n: "quat_norm ieee_ops (orientation (avg_state norm_example)) = Fin (129 / 128)"
  proof -
    have "sqrt (129 * 129 / (128 * 128)) = (129 / 128 :: real)"
      by (rule real_sqrt_unique) (simp_all add: power2_eq_square)
    then show ?thesis
      by (simp add: norm_example_def quat_norm_def coeffs_dot_def ieee_ops_def zero_ieee_def)
  qed
  have dev: "\<bar>129 / 128 - 1\<bar> \<le> sqrt (1000 * (1 / 2 ^ 23) :: real)"
    by (rule real_le_rsqrt) (simp add: power2_eq_square)
  have "sqrt (1 / 2 ^ 23) \<le> (1 / 129 :: real)"
    by (rule real_le_lsqrt) (simp_all add: power2_eq_square)
  moreover have "op_sqrt ieee_ops (const_epsilon ieee_ops) = Fin (sqrt (1 / 2 ^ 23))"
    by (simp add: ieee_ops_def)
  ultimately have "\<not> invariants_met ieee_ops norm_example"
    by (simp add: invariants_met_def n one_ieee_def)
  with n dev is_real_norm_example show ?thesis by blast
qed

section \<open>Propagation of the mean\<close>

lemma predict_mean:
  fixes f :: "'a::{zero,numeral,minus,uminus,times,inverse,abs,ord} pseudorange_ins_qkf"
    and S :: "'a scalar_ops" and accel_meas :: "'a vec"
  defines "st \<equiv> avg_state f"
  defines "a \<equiv> vsub (rotate (conjugate (orientation st)) (vsub accel_meas (accel_bias st)))
                     (vmuls (normalized3 S (position st)) (accel_gravity_norm f))"
  shows "inertial_accel (avg_state (predict_ecef S Q gyro_meas accel_meas dt f)) = a"
    and "body_rate (avg_state (predict_ecef S Q gyro_meas accel_meas dt f)) =
           vsub gyro_meas (gyro_bias st)"
    and "orientation (avg_state (predict_ecef S Q gyro_meas accel_meas dt f)) =
           quat_mul (q_exp Q (vmuls (vsub gyro_meas (gyro_bias st)) dt)) (orientation st)"
    and "position (avg_state (predict_ecef S Q gyro_meas accel_meas dt f)) =
           vadd (vadd (position st) (vmuls (velocity st) dt)) (vmuls (vmuls (smulv (5 / 10) a) dt) dt)"
    and "velocity (avg_state (predict_ecef S Q gyro_meas accel_meas dt f)) =
           vadd (velocity st) (vmuls a dt)"
    and "gyro_bias (avg_state (predict_ecef S Q gyro_meas accel_meas dt f)) = gyro_bias st"
    and "accel_bias (avg_state (predict_ecef S Q gyro_meas accel_meas dt f)) = accel_bias st"
    and "clock_bias (avg_state (predict_ecef S Q gyro_meas accel_meas dt f)) = clock_bias st"
  by (simp_all add: predict_ecef_def Let_def st_def a_def)

lemma normalized3_zero_ieee:
  assumes "p 0 = (0::ieee)" "p 1 = 0" "p 2 = 0" "i < 3"
  shows "normalized3 ieee_ops p i = NaN"
proof -
  from \<open>i < 3\<close> have "i = 0 \<or> i = 1 \<or> i = 2" by auto
  then show ?thesis
    using assms(1-3)
    by (auto simp: normalized3_def vdivs_def norm3_def dot3_def ieee_ops_def zero_ieee_def)
qed

text \<open>
  Claim C9.  On \<open>ieee\<close> scalars, when the position of the mean is the zero vector
  \<open>predict_ecef\<close> divides zero by the zero norm; every coefficient of \<open>inertial_accel\<close>,
  and with it of the new position and of the new velocity, is NaN, whatever the inputs.
  The state is then not real, the invariant does not hold and the assertion that ends
  the function fails.  The witness is the default-constructed filter.
\<close>

theorem predict_ecef_zero_position:
  fixes f :: "ieee pseudorange_ins_qkf"
  assumes "position (avg_state f) 0 = 0" "position (avg_state f) 1 = 0"
    "position (avg_state f) 2 = 0"
  shows
    "(\<forall>i<3. inertial_accel (avg_state (predict_ecef ieee_ops Q gyro_meas accel_meas dt f)) i = NaN
          \<and> position (avg_state (predict_ecef ieee_ops Q gyro_meas accel_meas dt f)) i = NaN
          \<and> velocity (avg_state (predict_ecef ieee_ops Q gyro_meas accel_meas dt f)) i = NaN)
     \<and> \<not> is_real ieee_ops (predict_ecef ieee_ops Q gyro_meas accel_meas dt f)
     \<and> \<not> invariants_met ieee_ops (predict_ecef ieee_ops Q gyro_meas accel_meas dt f)
     \<and> predict_ecef_asserted ieee_ops Q gyro_meas accel_meas dt f = Inl Assertion_failed"
proof -
  let ?f' = "predict_ecef ieee_ops Q gyro_meas accel_meas dt f"
  have nan: "inertial_accel (avg_state ?f') i = NaN \<and> position (avg_state ?f') i = NaN
             \<and> velocity (avg_state ?f') i = NaN" if "i < 3" for i
    using normalized3_zero_ieee [OF assms that]
    by (simp add: predict_mean vsub_def vadd_def vmuls_def smulv_def)
  have "op_isnan ieee_ops (position (avg_state ?f') 0)"
    using nan [of 0] by (simp add: ieee_ops_def)
  then have "hasNaN_vec ieee_ops 3 (position (avg_state ?f'))"
    by (auto simp: hasNaN_vec_def list_ex_iff)
  then have not_real: "\<not> is_real ieee_ops ?f'"
    by (simp add: is_real_def state_is_real_def has_nan_def)
  then have inv: "\<not> invariants_met ieee_ops ?f'"
    by (simp add: invariants_met_def)
  then have "predict_ecef_asserted ieee_ops Q gyro_meas accel_meas dt f = Inl Assertion_failed"
    by (simp add: predict_ecef_asserted_def asserting_def Let_def)
  with nan not_real inv show ?thesis by blast
qed

theorem predict_ecef_zero_position_witness:
  "position (avg_state (predict_ecef ieee_ops (first_order_ops ieee_ops) vzero (vec3 0 0 1) 1
      (default_filter ieee_ops))) 0 = NaN
   \<and> velocity (avg_state (predict_ecef ieee_ops (first_order_ops ieee_ops) vzero (vec3 0 0 1) 1
      (default_filter ieee_ops))) 2 = NaN
   \<and> predict_ecef_asserted ieee_ops (first_order_ops ieee_ops) vzero (vec3 0 0 1) 1
      (default_filter ieee_ops) = Inl Assertion_failed"
  using predict_ecef_zero_position [of "default_filter ieee_ops" "first_order_ops ieee_ops"
      vzero "vec3 0 0 1" 1]
  by (simp add: default_filter_def pseudorange_ins_qkf_ctor_def Let_def vzero_def)

lemma toRotationMatrix_conjugate:
  fixes q :: "'a::comm_ring_1 quat"
  assumes "i < 3" "j < 3"
  shows "toRotationMatrix (conjugate q) i j = toRotationMatrix q j i"
proof -
  from assms have "(i = 0 \<or> i = 1 \<or> i = 2) \<and> (j = 0 \<or> j = 1 \<or> j = 2)" by auto
  then show ?thesis
    by (auto simp: toRotationMatrix_def conjugate_def Let_def algebra_simps)
qed

lemma rotate_conjugate:
  fixes q :: "'a::comm_ring_1 quat"
  assumes "i < 3"
  shows "rotate (conjugate q) v i = mv3 (mtranspose (toRotationMatrix q)) v i"
  using assms by (simp add: rotate_def mv3_def mtranspose_def toRotationMatrix_conjugate)

lemma default_filter_cov:
  fixes S :: "'a::linordered_field scalar_ops"
  shows "i \<noteq> j \<Longrightarrow> cov (default_filter S) i j = 0"
  by (auto simp add: default_filter_def pseudorange_ins_qkf_ctor_def Let_def set_block_def
      mzero_def mmuls_def midentity_def)

lemma unit_z_filter_facts:
  fixes S :: "'a::linordered_field scalar_ops"
  shows "cov (unit_z_filter S) = cov (default_filter S)"
    and "position (avg_state (unit_z_filter S)) = vec3 0 0 1"
    and "velocity (avg_state (unit_z_filter S)) = vzero"
    and "gyro_bias (avg_state (unit_z_filter S)) = vzero"
    and "accel_bias (avg_state (unit_z_filter S)) = vzero"
    and "orientation (avg_state (unit_z_filter S)) = quat_identity"
    and "accel_gravity_norm (unit_z_filter S) = 10"
  by (simp_all add: unit_z_filter_def init_position_def clear_covariance_block_def Let_def
      default_filter_def pseudorange_ins_qkf_ctor_def)

lemma unit_z_filter_norm: "norm3 real_ops (position (avg_state (unit_z_filter real_ops))) = 1"
  by (simp add: unit_z_filter_facts norm3_def dot3_def vec3_def real_ops_def)

text \<open>
  Claim C4.  In exact arithmetic (any ordered field), when the norm of the position is
  not zero, \<open>predict_ecef\<close> sets the body rate to \<open>omega = gyro_meas - gyro_bias\<close>, the
  inertial acceleration to
  \<open>a = R_bi\<^sup>T * (accel_meas - accel_bias) - position / norm position * accel_gravity_norm\<close>
  with \<open>R_bi\<close> the rotation matrix of the orientation, the orientation to
  \<open>exp (omega * dt) * orientation\<close>, the position to
  \<open>position + velocity * dt + 0.5 * a * dt\<^sup>2\<close> and the velocity to \<open>velocity + a * dt\<close>,
  the right-hand sides read in the state before the call.
\<close>

theorem predict_ecef_mean_update:
  fixes f :: "'a::linordered_field pseudorange_ins_qkf"
  assumes "norm3 S (position (avg_state f)) \<noteq> 0"
  shows
    "(let st = avg_state f;
          st' = avg_state (predict_ecef S Q gyro_meas accel_meas dt f);
          omega = vsub gyro_meas (gyro_bias st);
          R_bi = toRotationMatrix (orientation st);
          a = (\<lambda>i. mv3 (mtranspose R_bi) (vsub accel_meas (accel_bias st)) i
                     - position st i / norm3 S (position st) * accel_gravity_norm f)
      in body_rate st' = omega
         \<and> orientation st' = quat_mul (q_exp Q (vmuls omega dt)) (orientation st)
         \<and> (\<forall>i<3. inertial_accel st' i = a i
                  \<and> position st' i = position st i + velocity st i * dt + 0.5 * a i * dt\<^sup>2
                  \<and> velocity st' i = velocity st i + a i * dt))"
  by (simp add: Let_def predict_mean vsub_def vadd_def vmuls_def smulv_def normalized3_def
      vdivs_def rotate_conjugate power2_eq_square)

theorem predict_ecef_mean_update_witness:
  "velocity (avg_state (predict_ecef real_ops (first_order_ops real_ops) vzero (vec3 0 0 12) 1
       (unit_z_filter real_ops))) 2 = 2
   \<and> position (avg_state (predict_ecef real_ops (first_order_ops real_ops) vzero (vec3 0 0 12) 1
       (unit_z_filter real_ops))) 2 = 2
   \<and> inertial_accel (avg_state (predict_ecef real_ops (first_order_ops real_ops) vzero
       (vec3 0 0 12) 1 (unit_z_filter real_ops))) 2 = 2"
proof -
  have 1: "norm3 real_ops (position (avg_state (unit_z_filter real_ops))) \<noteq> 0"
    by (simp add: unit_z_filter_norm)
  show ?thesis
    using predict_ecef_mean_update [OF 1, of "first_order_ops real_ops" vzero "vec3 0 0 12" 1]
    unfolding Let_def
    apply (elim conjE)
    apply (drule spec [of _ 2])
    apply (simp add: unit_z_filter_facts norm3_def dot3_def real_ops_def vec3_def vzero_def
        vsub_def mv3_def mtranspose_def toRotationMatrix_def quat_identity_def)
    done
qed

section \<open>Propagation of the covariance\<close>

lemma mirror_blocks:
  "fold mirror_block block_addr U i j = (if below_diagonal i j then U j i else U i j)"
  by (auto simp: block_addr_def mirror_block_def set_block_def block_def mtranspose_def
      below_diagonal_def Let_def)

lemma predict_cov:
  fixes f :: "'a::{zero,numeral,minus,uminus,times,inverse,abs,ord} pseudorange_ins_qkf"
  shows "cov (predict_ecef S Q gyro_meas accel_meas dt f) =
     (let attitude_conj = conjugate (orientation (avg_state f));
          accel_sensible_ecef = rotate attitude_conj (vsub accel_meas (accel_bias (avg_state f)));
          dtR = smulm (- dt) (toRotationMatrix attitude_conj);
          dtQ = smulm (- dt) (q_cross Q (vneg accel_sensible_ecef))
      in add_block3 9 9 (mmuls (as_diagonal (accel_stability_noise f)) dt)
           (add_block3 6 6 (mmuls (as_diagonal (accel_white_noise f)) dt)
             (add_block3 3 3 (mmuls (as_diagonal (gyro_white_noise f)) dt)
               (add_block3 0 0 (mmuls (as_diagonal (gyro_stability_noise f)) dt)
                 (propagate_cov dtR dtQ (cov f))))))"
  by (simp add: predict_ecef_def Let_def)

lemma predict_pt_cov:
  fixes f :: "'a::{zero,numeral,minus,uminus,times,inverse,abs,ord} pseudorange_ins_qkf"
  shows "pt_cov (predict_ecef S Q gyro_meas accel_meas dt f) =
     (let PT = add_block3 0 0 (smulm (dt * dt) (block 6 6 (cov f))) (pt_cov f);
          PT = add_block3 0 0
                 (mmuls (mmuls (mmuls (as_diagonal (accel_white_noise f)) (5 / 10)) dt) dt) PT
      in set_coeff 3 3 (PT 3 3 + clock_stability_noise f * dt) PT)"
  by (simp add: predict_ecef_def Let_def)

lemma add_block3_zero:
  fixes M :: "'a::comm_ring_1 mat"
  assumes "\<And>i j. B i j = 0"
  shows "add_block3 r c B M = M"
  by (auto simp: add_block3_def set_block_def madd_def block_def assms fun_eq_iff)

lemma mm3_zero_left:
  fixes B :: "'a::comm_ring_1 mat"
  shows "mm3 (\<lambda>i j. 0) B = (\<lambda>i j. 0)" "mm3 B (\<lambda>i j. 0) = (\<lambda>i j. 0)"
  by (simp_all add: mm3_def)

lemma propagate_blocks_zero:
  fixes P :: "'a::linordered_field mat"
  shows "propagate_blocks (\<lambda>i j. 0) (\<lambda>i j. 0) P = P"
  by (simp add: propagate_blocks_def Let_def sgemm_def sgemmm_def sgemmm_diag_def ssyr2k_def
      mm3_zero_left mtranspose_def madd_def add_block3_zero)

lemma is_symmetric_iff: "is_symmetric n M \<longleftrightarrow> (\<forall>i<n. \<forall>j<n. M i j = M j i)"
  by (auto simp: is_symmetric_def list_all_iff)

lemma below_diagonal_bounds: "below_diagonal i j \<Longrightarrow> i < 12 \<and> j < 12"
  by (auto simp: below_diagonal_def)

lemma propagate_cov_zero:
  fixes P :: "'a::linordered_field mat"
  assumes "is_symmetric 12 P"
  shows "propagate_cov (\<lambda>i j. 0) (\<lambda>i j. 0) P i j = P i j"
  using assms below_diagonal_bounds [of i j]
  by (auto simp: propagate_cov_def mirror_blocks propagate_blocks_zero is_symmetric_iff)

text \<open>
  Claim C5, as amended.  In exact arithmetic (any ordered field), for a filter whose
  position has a non-zero norm and whose \<open>cov\<close> is symmetric, and an \<open>exp\<close> that maps the
  zero vector to the identity quaternion: \<open>predict_ecef\<close> with the gyro input equal to
  the gyro bias, the accelerometer input equal to the accelerometer bias and \<open>dt = 0\<close>
  leaves position, velocity, orientation, both biases, the clock bias, \<open>cov\<close> and \<open>pt_cov\<close>
  as they were.
\<close>

theorem predict_ecef_null_step:
  fixes f :: "'a::linordered_field pseudorange_ins_qkf"
  assumes "norm3 S (position (avg_state f)) \<noteq> 0"
    and "q_exp Q vzero = quat_identity"
    and "is_symmetric 12 (cov f)"
  shows
    "(let st = avg_state f;
          f' = predict_ecef S Q (gyro_bias st) (accel_bias st) 0 f;
          st' = avg_state f'
      in (\<forall>i<3. position st' i = position st i \<and> velocity st' i = velocity st i)
         \<and> orientation st' = orientation st
         \<and> gyro_bias st' = gyro_bias st
         \<and> accel_bias st' = accel_bias st
         \<and> clock_bias st' = clock_bias st
         \<and> (\<forall>i<12. \<forall>j<12. cov f' i j = cov f i j)
         \<and> (\<forall>i<4. \<forall>j<4. pt_cov f' i j = pt_cov f i j))"
proof -
  let ?st = "avg_state f"
  let ?f' = "predict_ecef S Q (gyro_bias ?st) (accel_bias ?st) 0 f"
  have zero_rate: "vmuls (vsub (gyro_bias ?st) (gyro_bias ?st)) 0 = vzero"
    by (simp add: vmuls_def vsub_def vzero_def)
  have ori: "orientation (avg_state ?f') = orientation ?st"
    by (simp add: predict_mean zero_rate assms(2) quat_mul_def quat_identity_def)
  have kin: "\<forall>i<3. position (avg_state ?f') i = position ?st i
                  \<and> velocity (avg_state ?f') i = velocity ?st i"
    by (simp add: predict_mean vadd_def vmuls_def)
  have c: "\<forall>i<12. \<forall>j<12. cov ?f' i j = cov f i j"
    by (simp add: predict_cov Let_def smulm_def mmuls_def add_block3_zero
        propagate_cov_zero [OF assms(3)])
  have pt: "\<forall>i<4. \<forall>j<4. pt_cov ?f' i j = pt_cov f i j"
    by (simp add: predict_pt_cov Let_def smulm_def mmuls_def add_block3_zero set_coeff_def)
  show ?thesis
    using ori kin c pt by (simp add: Let_def predict_mean)
qed

lemma unit_z_filter_symmetric: "is_symmetric 12 (cov (unit_z_filter real_ops))"
proof -
  have "cov (default_filter real_ops) i j = cov (default_filter real_ops) j i" for i j
    by (cases "i = j") (simp_all add: default_filter_cov)
  then show ?thesis
    by (simp add: is_symmetric_iff unit_z_filter_facts)
qed

theorem predict_ecef_null_step_witness:
  "position (avg_state (predict_ecef real_ops (first_order_ops real_ops) vzero vzero 0
       (unit_z_filter real_ops))) 2 = 1
   \<and> orientation (avg_state (predict_ecef real_ops (first_order_ops real_ops) vzero vzero 0
       (unit_z_filter real_ops))) = quat_identity
   \<and> cov (predict_ecef real_ops (first_order_ops real_ops) vzero vzero 0
       (unit_z_filter real_ops)) 7 7 = 100
   \<and> pt_cov (predict_ecef real_ops (first_order_ops real_ops) vzero vzero 0
       (unit_z_filter real_ops)) 3 3 = 90000"
proof -
  have 1: "norm3 real_ops (position (avg_state (unit_z_filter real_ops))) \<noteq> 0"
    by (simp add: unit_z_filter_norm)
  have 2: "q_exp (first_order_ops real_ops) vzero = quat_identity"
    by (simp add: first_order_ops_def vzero_def quat_identity_def)
  have 3: "cov (unit_z_filter real_ops) 7 7 = 100"
    by (simp add: unit_z_filter_facts default_filter_def pseudorange_ins_qkf_ctor_def Let_def
        set_block_def mmuls_def midentity_def)
  have 4: "pt_cov (unit_z_filter real_ops) 3 3 = 90000"
    by (simp add: unit_z_filter_def init_position_def clear_covariance_block_def Let_def
        set_coeff_def)
  show ?thesis
    using predict_ecef_null_step [OF 1 2 unit_z_filter_symmetric] 3 4
    by (simp add: Let_def unit_z_filter_facts vec3_def)
qed

text \<open>
  Claim C5 as stated fails twice.  On the default-constructed filter, whose position is
  the origin, the same call makes the position NaN.  And on \<open>skew_example\<close>, whose position
  has norm one and whose \<open>cov\<close> has \<open>1\<close> at \<open>(3, 0)\<close> and \<open>0\<close> at \<open>(0, 3)\<close>, the call
  overwrites the coefficient \<open>(3, 0)\<close> with the coefficient \<open>(0, 3)\<close>.
\<close>

theorem predict_ecef_null_step_counterexample:
  "position (avg_state (predict_ecef ieee_ops (first_order_ops ieee_ops)
       (gyro_bias (avg_state (default_filter ieee_ops)))
       (accel_bias (avg_state (default_filter ieee_ops))) 0 (default_filter ieee_ops))) 0
     \<noteq> position (avg_state (default_filter ieee_ops)) 0
   \<and> norm3 real_ops (position (avg_state skew_example)) = 1
   \<and> cov (predict_ecef real_ops (first_order_ops real_ops)
       (gyro_bias (avg_state skew_example)) (accel_bias (avg_state skew_example)) 0
       skew_example) 3 0
     \<noteq> cov skew_example 3 0"
proof -
  have pos0: "position (avg_state (default_filter ieee_ops)) i = 0" for i
    by (simp add: default_filter_def pseudorange_ins_qkf_ctor_def Let_def vzero_def)
  have "position (avg_state (predict_ecef ieee_ops (first_order_ops ieee_ops)
       (gyro_bias (avg_state (default_filter ieee_ops)))
       (accel_bias (avg_state (default_filter ieee_ops))) 0 (default_filter ieee_ops))) 0 = NaN"
    using normalized3_zero_ieee [of "position (avg_state (default_filter ieee_ops))" 0]
    by (simp add: pos0 predict_mean vsub_def vadd_def vmuls_def smulv_def)
  then have a: "position (avg_state (predict_ecef ieee_ops (first_order_ops ieee_ops)
       (gyro_bias (avg_state (default_filter ieee_ops)))
       (accel_bias (avg_state (default_filter ieee_ops))) 0 (default_filter ieee_ops))) 0
     \<noteq> position (avg_state (default_filter ieee_ops)) 0"
    by (simp add: pos0 zero_ieee_def)
  have b: "norm3 real_ops (position (avg_state skew_example)) = 1"
    by (simp add: skew_example_def unit_z_filter_norm)
  have off: "cov (unit_z_filter real_ops) 0 3 = 0"
    by (simp add: unit_z_filter_facts default_filter_cov)
  have "cov (predict_ecef real_ops (first_order_ops real_ops)
       (gyro_bias (avg_state skew_example)) (accel_bias (avg_state skew_example)) 0
       skew_example) 3 0 = 0"
    by (simp add: predict_cov Let_def smulm_def mmuls_def add_block3_zero propagate_cov_def
        mirror_blocks propagate_blocks_zero below_diagonal_def skew_example_def set_coeff_def off)
  then have c: "cov (predict_ecef real_ops (first_order_ops real_ops)
       (gyro_bias (avg_state skew_example)) (accel_bias (avg_state skew_example)) 0
       skew_example) 3 0 \<noteq> cov skew_example 3 0"
    by (simp add: skew_example_def set_coeff_def)
  from a b c show ?thesis by blast
qed

section \<open>The difference of two states\<close>

text \<open>
  Claim C8.  The attitude part of \<open>sigma_point_difference\<close> (the coefficients 3, 4, 5) is
  \<open>log (conjugate mean * q)\<close>, where \<open>q\<close> is the orientation of the point when the dot
  product of the coefficients of the two quaternions is not negative, and its negation
  otherwise; the conjugate of a quaternion of unit norm is its inverse.  For the
  orientations \<open>(1, 0, 0, 0)\<close> and \<open>(- 1, 0, 0, 0)\<close> the attitude part is the zero vector,
  for a \<open>log\<close> that maps the identity quaternion to the zero vector.  Exact arithmetic
  (any ordered field).
\<close>

theorem sigma_point_difference_attitude:
  fixes mean point :: "'a::linordered_field state"
  shows
    "(\<forall>i<3. sigma_point_difference Q mean point (3 + i) =
        q_log Q (quat_mul (conjugate (orientation mean))
          (if coeffs_dot (orientation mean) (orientation point) < 0
           then \<lparr> qw = - qw (orientation point), qx = - qx (orientation point),
                  qy = - qy (orientation point), qz = - qz (orientation point) \<rparr>
           else orientation point)) i)
     \<and> (coeffs_dot (orientation mean) (orientation mean) = 1 \<longrightarrow>
          quat_mul (conjugate (orientation mean)) (orientation mean) = quat_identity)
     \<and> (orientation mean = \<lparr> qw = 1, qx = 0, qy = 0, qz = 0 \<rparr>
          \<and> orientation point = \<lparr> qw = - 1, qx = 0, qy = 0, qz = 0 \<rparr>
          \<and> q_log Q quat_identity = vzero \<longrightarrow>
          (\<forall>i<3. sigma_point_difference Q mean point (3 + i) = 0))"
proof -
  have att: "\<forall>i<3. sigma_point_difference Q mean point (3 + i) =
        q_log Q (quat_mul (conjugate (orientation mean))
          (if coeffs_dot (orientation mean) (orientation point) < 0
           then \<lparr> qw = - qw (orientation point), qx = - qx (orientation point),
                  qy = - qy (orientation point), qz = - qz (orientation point) \<rparr>
           else orientation point)) i"
    by (simp add: sigma_point_difference_def Let_def set_segment_def coeffs_negated_def)
  have inv: "coeffs_dot (orientation mean) (orientation mean) = 1 \<longrightarrow>
          quat_mul (conjugate (orientation mean)) (orientation mean) = quat_identity"
    by (simp add: coeffs_dot_def quat_mul_def conjugate_def quat_identity_def algebra_simps)
  have hemi: "orientation mean = \<lparr> qw = 1, qx = 0, qy = 0, qz = 0 \<rparr>
          \<and> orientation point = \<lparr> qw = - 1, qx = 0, qy = 0, qz = 0 \<rparr>
          \<and> q_log Q quat_identity = vzero \<longrightarrow>
          (\<forall>i<3. sigma_point_difference Q mean point (3 + i) = 0)"
    by (simp add: sigma_point_difference_def Let_def set_segment_def coeffs_negated_def
        coeffs_dot_def quat_mul_def conjugate_def quat_identity_def vzero_def)
  from att inv hemi show ?thesis by blast
qed

theorem sigma_point_difference_attitude_witness:
  "sigma_point_difference (first_order_ops real_ops)
      (blank_state \<lparr> orientation := \<lparr> qw = 1, qx = 0, qy = 0, qz = 0 \<rparr> \<rparr>)
      (blank_state \<lparr> orientation := \<lparr> qw = - 1, qx = 0, qy = 0, qz = 0 \<rparr> \<rparr>) 3 = 0
   \<and> sigma_point_difference (first_order_ops real_ops)
      (blank_state \<lparr> orientation := \<lparr> qw = 1, qx = 0, qy = 0, qz = 0 \<rparr> \<rparr>)
      (blank_state \<lparr> orientation := \<lparr> qw = - 1, qx = 0, qy = 0, qz = 0 \<rparr> \<rparr>) 5 = 0"
proof -
  let ?m = "blank_state \<lparr> orientation := \<lparr> qw = 1, qx = 0, qy = 0, qz = 0 \<rparr> \<rparr> :: real state"
  let ?p = "blank_state \<lparr> orientation := \<lparr> qw = - 1, qx = 0, qy = 0, qz = 0 \<rparr> \<rparr> :: real state"
  have lg: "q_log (first_order_ops real_ops) quat_identity = vzero"
    by (auto simp: first_order_ops_def quat_identity_def vec3_def vzero_def)
  note th = sigma_point_difference_attitude [of "first_order_ops real_ops" ?m ?p,
      THEN conjunct2, THEN conjunct2, rule_format]
  have "sigma_point_difference (first_order_ops real_ops) ?m ?p (3 + 0) = 0"
    by (rule th) (simp_all add: lg)
  moreover have "sigma_point_difference (first_order_ops real_ops) ?m ?p (3 + 2) = 0"
    by (rule th) (simp_all add: lg)
  ultimately show ?thesis by simp
qed

section \<open>Symmetry of the covariances\<close>

lemma add_block3_outside:
  fixes M :: "'a::plus mat"
  assumes "\<not> (r \<le> i \<and> i < r + 3 \<and> c \<le> j \<and> j < c + 3)"
  shows "add_block3 r c B M i j = M i j"
  using assms by (auto simp add: add_block3_def set_block_def)

lemma add_block3_inside:
  fixes M :: "'a::plus mat"
  assumes "a < 3" "b < 3"
  shows "add_block3 r c B M (r + a) (c + b) = M (r + a) (c + b) + B a b"
  using assms by (simp add: add_block3_def set_block_def madd_def block_def)

lemma predict_cov_mirrored:
  fixes f :: "'a::{zero,numeral,minus,uminus,times,inverse,abs,ord} pseudorange_ins_qkf"
  assumes "below_diagonal i j"
  shows "cov (predict_ecef S Q gyro_meas accel_meas dt f) i j =
         cov (predict_ecef S Q gyro_meas accel_meas dt f) j i"
proof -
  have nb: "\<not> below_diagonal j i"
    using assms by (auto simp: below_diagonal_def)
  have out: "add_block3 d d B M i j = M i j" "add_block3 d d B M j i = M j i"
    if "d = 0 \<or> d = 3 \<or> d = 6 \<or> d = 9" for d and B M :: "'a mat"
    using assms that by (auto simp: below_diagonal_def add_block3_def set_block_def)
  show ?thesis
    by (simp add: predict_cov Let_def out propagate_cov_def mirror_blocks assms nb)
qed

lemma propagate_blocks_diag:
  fixes P :: "'a::{zero,numeral,minus,uminus,times,inverse,abs,ord} mat"
  assumes "a < 3" "b < 3"
  shows "propagate_blocks dtR dtQ P a b = P a b"
    and "propagate_blocks dtR dtQ P (3 + a) (3 + b) =
           P (3 + a) (3 + b)
           + mm3 (mm3 dtR (block 0 0 P)) (mtranspose dtR) a b
           + madd (mm3 dtR (block 0 3 P)) (mm3 (block 3 0 P) (mtranspose dtR)) a b"
    and "propagate_blocks dtR dtQ P (6 + a) (6 + b) =
           P (6 + a) (6 + b)
           + madd (mm3 dtQ (block 3 6 P)) (mm3 (block 6 3 P) (mtranspose dtQ)) a b
           + madd (mm3 dtR (block 9 6 P)) (mm3 (block 6 9 P) (mtranspose dtR)) a b
           + madd (mm3 dtR (mtranspose (mm3 dtQ (block 3 9 P))))
                  (mtranspose (mm3 dtR (mtranspose (mm3 dtQ (block 3 9 P))))) a b
           + mm3 (mm3 dtQ (block 3 3 P)) (mtranspose dtQ) a b
           + mm3 (mm3 dtR (block 9 9 P)) (mtranspose dtR) a b"
    and "propagate_blocks dtR dtQ P (9 + a) (9 + b) = P (9 + a) (9 + b)"
  using assms
  by (simp_all add: propagate_blocks_def Let_def sgemm_def sgemmm_def sgemmm_diag_def ssyr2k_def
      add_block3_def set_block_def block_def madd_def)

lemma sgemmm_term_symmetric:
  fixes A B :: "'a::comm_ring mat"
  assumes "B 0 1 = B 1 0" "B 0 2 = B 2 0" "B 1 2 = B 2 1"
  shows "mm3 (mm3 A B) (mtranspose A) a b = mm3 (mm3 A B) (mtranspose A) b a"
  using assms by (simp add: mm3_def mtranspose_def algebra_simps)

lemma ssyr2k_term_symmetric:
  fixes A B1 B2 :: "'a::comm_ring mat"
  assumes "\<And>k. k < 3 \<Longrightarrow> B2 a k = B1 k a" "\<And>k. k < 3 \<Longrightarrow> B2 b k = B1 k b"
  shows "madd (mm3 A B1) (mm3 B2 (mtranspose A)) a b = madd (mm3 A B1) (mm3 B2 (mtranspose A)) b a"
  using assms by (simp add: mm3_def madd_def mtranspose_def algebra_simps)

lemma tmp_term_symmetric:
  fixes T :: "'a::comm_ring mat"
  shows "madd T (mtranspose T) a b = madd T (mtranspose T) b a"
  by (simp add: madd_def mtranspose_def add.commute)

lemma propagate_blocks_diag_symmetric:
  fixes P :: "'a::linordered_field mat"
  assumes "is_symmetric 12 P" "d = 0 \<or> d = 3 \<or> d = 6 \<or> d = 9" "a < 3" "b < 3"
  shows "propagate_blocks dtR dtQ P (d + a) (d + b) = propagate_blocks dtR dtQ P (d + b) (d + a)"
proof -
  have sym: "P i j = P j i" if "i < 12" "j < 12" for i j
    using assms(1) that by (simp add: is_symmetric_iff)
  have blk: "block r c P x k = block c r P k x" if "r + 3 \<le> 12" "c + 3 \<le> 12" "x < 3" "k < 3"
    for r c x k
    unfolding block_def by (rule sym) (use that in simp_all)
  have g0: "mm3 (mm3 A (block r r P)) (mtranspose A) a b = mm3 (mm3 A (block r r P)) (mtranspose A) b a"
    if "r + 3 \<le> 12" for r and A :: "'a mat"
  proof (rule sgemmm_term_symmetric)
    show "block r r P 0 1 = block r r P 1 0" by (rule blk) (use that in simp_all)
    show "block r r P 0 2 = block r r P 2 0" by (rule blk) (use that in simp_all)
    show "block r r P 1 2 = block r r P 2 1" by (rule blk) (use that in simp_all)
  qed
  have g1: "madd (mm3 A (block r c P)) (mm3 (block c r P) (mtranspose A)) a b
          = madd (mm3 A (block r c P)) (mm3 (block c r P) (mtranspose A)) b a"
    if "r + 3 \<le> 12" "c + 3 \<le> 12" for r c and A :: "'a mat"
  proof (rule ssyr2k_term_symmetric)
    show "block c r P a k = block r c P k a" if "k < 3" for k
      by (rule blk) (use that \<open>r + 3 \<le> 12\<close> \<open>c + 3 \<le> 12\<close> assms(3) in simp_all)
    show "block c r P b k = block r c P k b" if "k < 3" for k
      by (rule blk) (use that \<open>r + 3 \<le> 12\<close> \<open>c + 3 \<le> 12\<close> assms(4) in simp_all)
  qed
  have p: "P (d + a) (d + b) = P (d + b) (d + a)"
    by (rule sym) (use assms(2-4) in auto)
  note pb = propagate_blocks_diag [OF assms(3,4), of dtR dtQ P]
    and pb' = propagate_blocks_diag [OF assms(4,3), of dtR dtQ P]
  from assms(2) show ?thesis
  proof (elim disjE)
    assume d: "d = 0"
    show ?thesis unfolding d using p pb(1) pb'(1) by (simp add: d)
  next
    assume d: "d = 3"
    have "P (3 + a) (3 + b)
           + mm3 (mm3 dtR (block 0 0 P)) (mtranspose dtR) a b
           + madd (mm3 dtR (block 0 3 P)) (mm3 (block 3 0 P) (mtranspose dtR)) a b
        = P (3 + b) (3 + a)
           + mm3 (mm3 dtR (block 0 0 P)) (mtranspose dtR) b a
           + madd (mm3 dtR (block 0 3 P)) (mm3 (block 3 0 P) (mtranspose dtR)) b a"
      using p g0 [of 0 dtR] g1 [of 0 3 dtR] by (simp only: d)
    then show ?thesis unfolding d by (simp only: pb(2) pb'(2))
  next
    assume d: "d = 6"
    have "P (6 + a) (6 + b)
           + madd (mm3 dtQ (block 3 6 P)) (mm3 (block 6 3 P) (mtranspose dtQ)) a b
           + madd (mm3 dtR (block 9 6 P)) (mm3 (block 6 9 P) (mtranspose dtR)) a b
           + madd (mm3 dtR (mtranspose (mm3 dtQ (block 3 9 P))))
                  (mtranspose (mm3 dtR (mtranspose (mm3 dtQ (block 3 9 P))))) a b
           + mm3 (mm3 dtQ (block 3 3 P)) (mtranspose dtQ) a b
           + mm3 (mm3 dtR (block 9 9 P)) (mtranspose dtR) a b
        = P (6 + b) (6 + a)
           + madd (mm3 dtQ (block 3 6 P)) (mm3 (block 6 3 P) (mtranspose dtQ)) b a
           + madd (mm3 dtR (block 9 6 P)) (mm3 (block 6 9 P) (mtranspose dtR)) b a
           + madd (mm3 dtR (mtranspose (mm3 dtQ (block 3 9 P))))
                  (mtranspose (mm3 dtR (mtranspose (mm3 dtQ (block 3 9 P))))) b a
           + mm3 (mm3 dtQ (block 3 3 P)) (mtranspose dtQ) b a
           + mm3 (mm3 dtR (block 9 9 P)) (mtranspose dtR) b a"
      using p g0 [of 3 dtQ] g0 [of 9 dtR] g1 [of 3 6 dtQ] g1 [of 9 6 dtR]
        tmp_term_symmetric [of "mm3 dtR (mtranspose (mm3 dtQ (block 3 9 P)))" a b]
      by (simp only: d)
    then show ?thesis unfolding d by (simp only: pb(3) pb'(3))
  next
    assume d: "d = 9"
    show ?thesis unfolding d using p pb(4) pb'(4) by (simp add: d)
  qed
qed

lemma noise_block_symmetric:
  fixes v :: "'a::linordered_field vec"
  shows "mmuls (as_diagonal v) s a b = mmuls (as_diagonal v) s b a"
  by (simp add: mmuls_def as_diagonal_def)

lemma same_block_cases:
  assumes "i < 12" "j < 12" "\<not> below_diagonal i j" "\<not> below_diagonal j i"
  obtains d a b where "d = 0 \<or> d = 3 \<or> d = 6 \<or> d = (9::nat)" "a < 3" "b < 3"
    "i = d + a" "j = d + b"
proof -
  from \<open>i < 12\<close> consider "i < 3" | "3 \<le> i \<and> i < 6" | "6 \<le> i \<and> i < 9" | "9 \<le> i \<and> i < 12"
    by linarith
  then show thesis
  proof cases
    case 1
    with assms(2,4) have "j < 3"
      unfolding below_diagonal_def by linarith
    with 1 show thesis using that [of 0 i j] by simp
  next
    case 2
    with assms(2,3,4) have "3 \<le> j \<and> j < 6"
      unfolding below_diagonal_def by linarith
    with 2 show thesis using that [of 3 "i - 3" "j - 3"] by simp
  next
    case 3
    with assms(2,3,4) have "6 \<le> j \<and> j < 9"
      unfolding below_diagonal_def by linarith
    with 3 show thesis using that [of 6 "i - 6" "j - 6"] by simp
  next
    case 4
    with assms(2,3) have "9 \<le> j \<and> j < 12"
      unfolding below_diagonal_def by linarith
    with 4 show thesis using that [of 9 "i - 9" "j - 9"] by simp
  qed
qed

lemma noisy_diag:
  fixes M :: "'a::plus mat"
  assumes "a < 3" "b < 3"
  shows "add_block3 9 9 N4 (add_block3 6 6 N3 (add_block3 3 3 N2 (add_block3 0 0 N1 M))) a b
           = M a b + N1 a b"
    and "add_block3 9 9 N4 (add_block3 6 6 N3 (add_block3 3 3 N2 (add_block3 0 0 N1 M)))
           (3 + a) (3 + b) = M (3 + a) (3 + b) + N2 a b"
    and "add_block3 9 9 N4 (add_block3 6 6 N3 (add_block3 3 3 N2 (add_block3 0 0 N1 M)))
           (6 + a) (6 + b) = M (6 + a) (6 + b) + N3 a b"
    and "add_block3 9 9 N4 (add_block3 6 6 N3 (add_block3 3 3 N2 (add_block3 0 0 N1 M)))
           (9 + a) (9 + b) = M (9 + a) (9 + b) + N4 a b"
  using assms by (simp_all add: add_block3_def set_block_def madd_def block_def)

lemma propagate_cov_diag:
  fixes P :: "'a::{zero,numeral,minus,uminus,times,inverse,abs,ord} mat"
  assumes "d = 0 \<or> d = 3 \<or> d = 6 \<or> d = 9" "a < 3" "b < 3"
  shows "propagate_cov dtR dtQ P (d + a) (d + b) = propagate_blocks dtR dtQ P (d + a) (d + b)"
  using assms by (auto simp: propagate_cov_def mirror_blocks below_diagonal_def)

lemma predict_cov_diag_symmetric:
  fixes f :: "'a::linordered_field pseudorange_ins_qkf"
  assumes "is_symmetric 12 (cov f)" "d = 0 \<or> d = 3 \<or> d = 6 \<or> d = 9" "a < 3" "b < 3"
  shows "cov (predict_ecef S Q gyro_meas accel_meas dt f) (d + a) (d + b) =
         cov (predict_ecef S Q gyro_meas accel_meas dt f) (d + b) (d + a)"
proof -
  have core: "propagate_cov dtR dtQ (cov f) (d + a) (d + b)
            = propagate_cov dtR dtQ (cov f) (d + b) (d + a)" for dtR dtQ
    using propagate_blocks_diag_symmetric [OF assms, of dtR dtQ]
    by (simp add: propagate_cov_diag [OF assms(2,3,4)] propagate_cov_diag [OF assms(2,4,3)])
  note nd = noisy_diag [OF assms(3,4)] and nd' = noisy_diag [OF assms(4,3)]
  from assms(2) show ?thesis
  proof (elim disjE)
    assume d: "d = 0"
    show ?thesis
      using core unfolding d
      by (simp add: predict_cov Let_def nd(1) nd'(1) noise_block_symmetric [of _ _ a b])
  next
    assume d: "d = 3"
    show ?thesis
      using core unfolding d
      by (simp add: predict_cov Let_def nd(2) nd'(2) noise_block_symmetric [of _ _ a b])
  next
    assume d: "d = 6"
    show ?thesis
      using core unfolding d
      by (simp add: predict_cov Let_def nd(3) nd'(3) noise_block_symmetric [of _ _ a b])
  next
    assume d: "d = 9"
    show ?thesis
      using core unfolding d
      by (simp add: predict_cov Let_def nd(4) nd'(4) noise_block_symmetric [of _ _ a b])
  qed
qed

lemma predict_cov_symmetric:
  fixes f :: "'a::linordered_field pseudorange_ins_qkf"
  assumes "is_symmetric 12 (cov f)"
  shows "is_symmetric 12 (cov (predict_ecef S Q gyro_meas accel_meas dt f))"
proof -
  let ?C = "cov (predict_ecef S Q gyro_meas accel_meas dt f)"
  have "?C i j = ?C j i" if bounds: "i < 12" "j < 12" for i j
  proof (cases "below_diagonal i j \<or> below_diagonal j i")
    case True
    then show ?thesis
      using predict_cov_mirrored [of i j S Q gyro_meas accel_meas dt f]
        predict_cov_mirrored [of j i S Q gyro_meas accel_meas dt f]
      by auto
  next
    case False
    then obtain d a b where "d = 0 \<or> d = 3 \<or> d = 6 \<or> d = (9::nat)" "a < 3" "b < 3"
      "i = d + a" "j = d + b"
      using same_block_cases [OF bounds] by blast
    then show ?thesis
      using predict_cov_diag_symmetric [OF assms, of d a b] by simp
  qed
  then show ?thesis by (simp add: is_symmetric_iff)
qed

lemma predict_pt_cov_symmetric:
  fixes f :: "'a::linordered_field pseudorange_ins_qkf"
  assumes "is_symmetric 12 (cov f)" "is_symmetric 4 (pt_cov f)"
  shows "is_symmetric 4 (pt_cov (predict_ecef S Q gyro_meas accel_meas dt f))"
proof -
  have c: "cov f (6 + a) (6 + b) = cov f (6 + b) (6 + a)" if "a < 3" "b < 3" for a b
    using assms(1) that by (simp add: is_symmetric_iff)
  have p: "pt_cov f i j = pt_cov f j i" if "i < 4" "j < 4" for i j
    using assms(2) that by (simp add: is_symmetric_iff)
  have "pt_cov (predict_ecef S Q gyro_meas accel_meas dt f) i j =
        pt_cov (predict_ecef S Q gyro_meas accel_meas dt f) j i" if "i < 4" "j < 4" for i j
    using that p [of i j] c [of i j]
    by (auto simp add: predict_pt_cov Let_def set_coeff_def add_block3_def set_block_def
        madd_def block_def smulm_def mmuls_def as_diagonal_def)
  then show ?thesis by (simp add: is_symmetric_iff)
qed

lemma rank_one_symmetric:
  fixes P :: "'a::comm_ring mat"
  assumes "is_symmetric n P"
    and "\<And>i. i < n \<Longrightarrow> g i = c i * s"
    and "\<And>j. j < n \<Longrightarrow> r j = c j"
  shows "is_symmetric n (msub P (outer g r))"
  using assms by (simp add: is_symmetric_iff msub_def outer_def mult.commute mult.left_commute)

lemma vm3_block_symmetric:
  fixes C :: "'a::comm_ring mat"
  assumes "is_symmetric n C" "j < n" "r + 3 \<le> n"
  shows "vm3 d (block r 0 C) j = mv3 (block 0 r C) d j"
  using assms by (simp add: is_symmetric_iff vm3_def mv3_def block_def mult.commute)

lemma vm4_symmetric:
  fixes C :: "'a::comm_ring mat"
  assumes "is_symmetric 4 C" "j < 4"
  shows "vm4 d C j = mv4 C d j"
  using assms by (simp add: is_symmetric_iff vm4_def mv4_def mult.commute)

lemma mm3_outer:
  fixes B :: "'a::comm_ring mat"
  shows "mm3 (outer g h) B = outer g (vm3 h B)"
  by (simp add: mm3_def outer_def vm3_def fun_eq_iff algebra_simps)

lemma obs_vector_step_symmetric:
  fixes C :: "'a::linordered_field mat"
  assumes "is_symmetric 12 C"
  shows "is_symmetric 12 (snd (obs_vector_step error v_residual h (u, C)))"
proof -
  let ?s = "inverse (error + dot3 (vm3 h (block 3 3 C)) h)"
  let ?g = "vdivs (mv3 (block 0 3 C) h) (error + dot3 (vm3 h (block 3 3 C)) h)"
  have "is_symmetric 12 (msub C (outer ?g (vm3 h (block 3 0 C))))"
  proof (rule rank_one_symmetric [OF assms, where c = "mv3 (block 0 3 C) h" and s = ?s])
    show "?g i = mv3 (block 0 3 C) h i * ?s" for i
      by (simp add: vdivs_def divide_inverse)
    show "vm3 h (block 3 0 C) j = mv3 (block 0 3 C) h j" if "j < 12" for j
      using assms that by (simp add: vm3_block_symmetric)
  qed
  then show ?thesis
    by (simp add: obs_vector_step_def Let_def mm3_outer)
qed

lemma deltarange_symmetric:
  fixes f :: "'a::linordered_field pseudorange_ins_qkf"
  assumes "is_symmetric 12 (cov f)"
  shows "is_symmetric 12 (cov (snd (obs_gps_deltarange S accum sat_vel deltarange error f)))"
proof -
  have "is_symmetric 12 (msub (cov f) (outer (vmuls (mv3 (block 0 6 (cov f)) d) s)
          (vm3 d (block 6 0 (cov f)))))" for d s
  proof (rule rank_one_symmetric [OF assms, where c = "mv3 (block 0 6 (cov f)) d" and s = s])
    show "vmuls (mv3 (block 0 6 (cov f)) d) s i = mv3 (block 0 6 (cov f)) d i * s" for i
      by (simp add: vmuls_def)
    show "vm3 d (block 6 0 (cov f)) j = mv3 (block 0 6 (cov f)) d j" if "j < 12" for j
      using assms that by (simp add: vm3_block_symmetric)
  qed
  then show ?thesis
    by (simp add: obs_gps_deltarange_def Let_def)
qed

lemma pseudorange_symmetric:
  fixes f :: "'a::linordered_field pseudorange_ins_qkf"
  assumes "is_symmetric 4 (pt_cov f)"
  shows "is_symmetric 4 (pt_cov (snd (obs_gps_pseudorange S accum sat_pos pseudorange error f)))"
proof -
  have "is_symmetric 4 (msub (pt_cov f) (outer (vmuls (mv4 (pt_cov f) d) s) (vm4 d (pt_cov f))))"
    for d s
  proof (rule rank_one_symmetric [OF assms, where c = "mv4 (pt_cov f) d" and s = s])
    show "vmuls (mv4 (pt_cov f) d) s i = mv4 (pt_cov f) d i * s" for i
      by (simp add: vmuls_def)
    show "vm4 d (pt_cov f) j = mv4 (pt_cov f) d j" if "j < 4" for j
      using assms that by (simp add: vm4_symmetric)
  qed
  then show ?thesis
    by (simp add: obs_gps_pseudorange_def Let_def)
qed

lemma pv_velocity_step_symmetric:
  fixes C :: "'a::linordered_field mat"
  assumes "is_symmetric 12 C" "k < 3"
  shows "is_symmetric 12 (snd (pv_velocity_step residual v_error k (u, C)))"
proof -
  let ?s = "1 / (C (6 + k) (6 + k) + v_error k)"
  have "is_symmetric 12 (msub C (outer (vmuls (\<lambda>a. block 0 (6 + k) C a 0) ?s)
          (\<lambda>b. block (6 + k) 0 C 0 b)))"
  proof (rule rank_one_symmetric [OF assms(1), where c = "\<lambda>a. C a (6 + k)" and s = ?s])
    show "vmuls (\<lambda>a. block 0 (6 + k) C a 0) ?s i = C i (6 + k) * ?s" for i
      by (simp add: vmuls_def block_def)
    show "block (6 + k) 0 C 0 j = C j (6 + k)" if "j < 12" for j
      using assms that by (simp add: block_def is_symmetric_iff)
  qed
  then show ?thesis
    by (simp add: pv_velocity_step_def Let_def)
qed

lemma pv_report_cov_symmetric:
  fixes f :: "'a::linordered_field pseudorange_ins_qkf"
  assumes "is_symmetric 12 (cov f)"
  shows "is_symmetric 12 (cov (obs_gps_pv_report Q pos vel p_error v_error f))"
proof -
  have "is_symmetric 12 (snd (fold (pv_velocity_step r v_error) [0, 1, 2] (u, cov f)))" for r u
    using assms
    by (simp add: pv_velocity_step_symmetric [where u = "fst x" and C = "snd x" for x, simplified])
  then show ?thesis
    by (simp add: obs_gps_pv_report_def Let_def)
qed

lemma obs_vector_cov_symmetric:
  fixes f :: "'a::linordered_field pseudorange_ins_qkf"
  assumes "is_symmetric 12 (cov f)"
  shows "is_symmetric 12 (cov (obs_vector S Q ref obs error f))"
    and "pt_cov (obs_vector S Q ref obs error f) = pt_cov f"
  using assms
  by (simp_all add: obs_vector_def Let_def
      obs_vector_step_symmetric [where u = "fst x" and C = "snd x" for x, simplified])

lemma clear_covariance_block_symmetric:
  fixes f :: "'a::linordered_field pseudorange_ins_qkf"
  assumes "is_symmetric 3 repl"
  shows "rowcol \<in> {0, 3, 6, 9} \<Longrightarrow> is_symmetric 12 (cov f) \<Longrightarrow>
           is_symmetric 12 (cov (clear_covariance_block rowcol repl f))"
    and "is_symmetric 4 (pt_cov (clear_covariance_block 12 repl f))"
proof -
  have r: "repl a b = repl b a" if "a < 3" "b < 3" for a b
    using assms that by (simp add: is_symmetric_iff)
  show "is_symmetric 12 (cov (clear_covariance_block rowcol repl f))"
    if rc: "rowcol \<in> {0, 3, 6, 9}" and c: "is_symmetric 12 (cov f)"
  proof -
    have "cov (clear_covariance_block rowcol repl f) i j =
          cov (clear_covariance_block rowcol repl f) j i" if "i < 12" "j < 12" for i j
    proof -
      have "cov f i j = cov f j i"
        using c that by (simp add: is_symmetric_iff)
      moreover have "repl (i - rowcol) (j - rowcol) = repl (j - rowcol) (i - rowcol)"
        if "rowcol \<le> i \<and> i < rowcol + 3 \<and> rowcol \<le> j \<and> j < rowcol + 3"
        by (rule r) (use that in auto)
      ultimately show ?thesis
        using that by (auto simp add: clear_cov_inertial [OF rc])
    qed
    then show ?thesis by (simp add: is_symmetric_iff)
  qed
  have "pt_cov (clear_covariance_block 12 repl f) i j =
        pt_cov (clear_covariance_block 12 repl f) j i" if "i < 4" "j < 4" for i j
    using that r [of i j] by (auto simp add: clear_cov_position)
  then show "is_symmetric 4 (pt_cov (clear_covariance_block 12 repl f))"
    by (simp add: is_symmetric_iff)
qed

lemma as_diagonal_symmetric:
  fixes v :: "'a::linordered_field vec"
  shows "is_symmetric n (as_diagonal v)"
  by (simp add: is_symmetric_iff as_diagonal_def)

lemma init_symmetric:
  fixes f :: "'a::linordered_field pseudorange_ins_qkf"
  assumes "is_symmetric 12 (cov f)" "is_symmetric 4 (pt_cov f)"
  shows "is_symmetric 3 attitude_error \<Longrightarrow>
           is_symmetric 12 (cov (init_attitude attitude attitude_error f))"
    and "pt_cov (init_attitude attitude attitude_error f) = pt_cov f"
    and "is_symmetric 12 (cov (init_velocity vel vel_error f))"
    and "pt_cov (init_velocity vel vel_error f) = pt_cov f"
    and "cov (init_position pos pos_error f) = cov f"
    and "is_symmetric 4 (pt_cov (init_position pos pos_error f))"
  using assms
  by (simp_all add: init_attitude_def init_velocity_def init_position_def
      clear_covariance_block_symmetric as_diagonal_symmetric clear_cov_inertial_frame
      clear_cov_position)

text \<open>
  Claim C2, as amended.  In exact arithmetic (any ordered field; round-off is not
  modelled, so the equalities are exact), for a filter whose \<open>cov\<close> and \<open>pt_cov\<close> are
  symmetric: \<open>cov\<close> and \<open>pt_cov\<close> are symmetric after \<open>predict_ecef\<close>, \<open>obs_vector\<close>,
  \<open>obs_gps_pseudorange\<close>, \<open>obs_gps_deltarange\<close>, \<open>init_velocity\<close> and \<open>init_position\<close>, and
  after \<open>init_attitude\<close> when the given error matrix is symmetric; \<open>cov\<close> is symmetric
  after \<open>obs_gps_pv_report\<close>.  And after \<open>predict_ecef\<close> on any filter \<open>g\<close>, symmetric or
  not, each coefficient of the six blocks below the diagonal blocks equals its mirror
  image (\<open>predict_cov_mirrored\<close> shows this at every scalar type).  Nothing is said of
  \<open>pt_cov\<close> after \<open>obs_gps_pv_report\<close>.  The proofs use no value of a quotient: each
  update subtracts a common scalar times the outer product of a column of the symmetric
  matrix with itself.
\<close>

theorem symmetry_preserved:
  fixes f g :: "'a::linordered_field pseudorange_ins_qkf"
  assumes "is_symmetric 12 (cov f)" and "is_symmetric 4 (pt_cov f)"
  shows
    "is_symmetric 12 (cov (predict_ecef S Q gyro_meas accel_meas dt f))
     \<and> is_symmetric 4 (pt_cov (predict_ecef S Q gyro_meas accel_meas dt f))
     \<and> is_symmetric 12 (cov (obs_vector S Q ref obs error f))
     \<and> is_symmetric 4 (pt_cov (obs_vector S Q ref obs error f))
     \<and> is_symmetric 12 (cov (snd (obs_gps_pseudorange S accum4 sat_pos pseudorange error f)))
     \<and> is_symmetric 4 (pt_cov (snd (obs_gps_pseudorange S accum4 sat_pos pseudorange error f)))
     \<and> is_symmetric 12 (cov (snd (obs_gps_deltarange S accum12 sat_vel deltarange error f)))
     \<and> is_symmetric 4 (pt_cov (snd (obs_gps_deltarange S accum12 sat_vel deltarange error f)))
     \<and> is_symmetric 12 (cov (obs_gps_pv_report Q pos vel p_error v_error f))
     \<and> (is_symmetric 3 attitude_error \<longrightarrow>
          is_symmetric 12 (cov (init_attitude attitude attitude_error f))
          \<and> is_symmetric 4 (pt_cov (init_attitude attitude attitude_error f)))
     \<and> is_symmetric 12 (cov (init_velocity vel vel_error f))
     \<and> is_symmetric 4 (pt_cov (init_velocity vel vel_error f))
     \<and> is_symmetric 12 (cov (init_position pos pos_error f))
     \<and> is_symmetric 4 (pt_cov (init_position pos pos_error f))
     \<and> (\<forall>i j. below_diagonal i j \<longrightarrow>
          cov (predict_ecef S Q gyro_meas accel_meas dt g) i j =
          cov (predict_ecef S Q gyro_meas accel_meas dt g) j i)"
proof -
  note sc = assms(1) and sp = assms(2)
  have pseudo: "cov (snd (obs_gps_pseudorange S accum4 sat_pos pseudorange error f)) = cov f"
    by (simp add: obs_gps_pseudorange_def Let_def)
  have delta: "pt_cov (snd (obs_gps_deltarange S accum12 sat_vel deltarange error f)) = pt_cov f"
    by (simp add: obs_gps_deltarange_def Let_def)
  have mirror: "\<forall>i j. below_diagonal i j \<longrightarrow>
          cov (predict_ecef S Q gyro_meas accel_meas dt g) i j =
          cov (predict_ecef S Q gyro_meas accel_meas dt g) j i"
    using predict_cov_mirrored by blast
  have rest: "is_symmetric 12 (cov (predict_ecef S Q gyro_meas accel_meas dt f))
     \<and> is_symmetric 4 (pt_cov (predict_ecef S Q gyro_meas accel_meas dt f))
     \<and> is_symmetric 12 (cov (obs_vector S Q ref obs error f))
     \<and> is_symmetric 4 (pt_cov (obs_vector S Q ref obs error f))
     \<and> is_symmetric 12 (cov (snd (obs_gps_pseudorange S accum4 sat_pos pseudorange error f)))
     \<and> is_symmetric 4 (pt_cov (snd (obs_gps_pseudorange S accum4 sat_pos pseudorange error f)))
     \<and> is_symmetric 12 (cov (snd (obs_gps_deltarange S accum12 sat_vel deltarange error f)))
     \<and> is_symmetric 4 (pt_cov (snd (obs_gps_deltarange S accum12 sat_vel deltarange error f)))
     \<and> is_symmetric 12 (cov (obs_gps_pv_report Q pos vel p_error v_error f))
     \<and> (is_symmetric 3 attitude_error \<longrightarrow>
          is_symmetric 12 (cov (init_attitude attitude attitude_error f))
          \<and> is_symmetric 4 (pt_cov (init_attitude attitude attitude_error f)))
     \<and> is_symmetric 12 (cov (init_velocity vel vel_error f))
     \<and> is_symmetric 4 (pt_cov (init_velocity vel vel_error f))
     \<and> is_symmetric 12 (cov (init_position pos pos_error f))
     \<and> is_symmetric 4 (pt_cov (init_position pos pos_error f))"
    using sc sp
    by (simp add: predict_cov_symmetric predict_pt_cov_symmetric obs_vector_cov_symmetric
        pseudorange_symmetric deltarange_symmetric pv_report_cov_symmetric init_symmetric
        pseudo delta)
  from rest mirror show ?thesis by blast
qed

lemma default_filter_pt_cov:
  fixes S :: "'a::linordered_field scalar_ops"
  shows "i \<noteq> j \<Longrightarrow> pt_cov (default_filter S) i j = 0"
  by (auto simp add: default_filter_def pseudorange_ins_qkf_ctor_def Let_def set_block_def
      set_coeff_def mzero_def mmuls_def midentity_def)

lemma default_filter_symmetric:
  fixes S :: "'a::linordered_field scalar_ops"
  shows "is_symmetric 12 (cov (default_filter S))" "is_symmetric 4 (pt_cov (default_filter S))"
proof -
  have "cov (default_filter S) i j = cov (default_filter S) j i" for i j
    by (cases "i = j") (simp_all add: default_filter_cov)
  then show "is_symmetric 12 (cov (default_filter S))"
    by (simp add: is_symmetric_iff)
  have "pt_cov (default_filter S) i j = pt_cov (default_filter S) j i" for i j
    by (cases "i = j") (simp_all add: default_filter_pt_cov)
  then show "is_symmetric 4 (pt_cov (default_filter S))"
    by (simp add: is_symmetric_iff)
qed

lemma unit_z_filter_pt_symmetric: "is_symmetric 4 (pt_cov (unit_z_filter real_ops))"
  using init_symmetric(6) [OF default_filter_symmetric [of real_ops], of "vec3 0 0 1" "vec3 1 1 1"]
  by (simp add: unit_z_filter_def)

theorem symmetry_preserved_witness:
  "is_symmetric 12 (cov (predict_ecef real_ops (first_order_ops real_ops) vzero (vec3 0 0 12) 1
      (unit_z_filter real_ops)))
   \<and> is_symmetric 4 (pt_cov (predict_ecef real_ops (first_order_ops real_ops) vzero (vec3 0 0 12) 1
      (unit_z_filter real_ops)))
   \<and> is_symmetric 4 (pt_cov (snd (obs_gps_pseudorange real_ops vzero (vec3 0 0 11) 10 1
      (unit_z_filter real_ops))))
   \<and> is_symmetric 12 (cov (obs_gps_pv_report (first_order_ops real_ops) (vec3 0 0 1) vzero
      (vec3 1 1 1) (vec3 1 1 1) (unit_z_filter real_ops)))
   \<and> is_symmetric 12 (cov (init_velocity vzero (vec3 4 5 6) (unit_z_filter real_ops)))"
  using symmetry_preserved [OF unit_z_filter_symmetric unit_z_filter_pt_symmetric,
      where S = real_ops and Q = "first_order_ops real_ops" and gyro_meas = vzero
        and accel_meas = "vec3 0 0 12" and dt = 1 and error = 1 and ?accum4.0 = vzero
        and sat_pos = "vec3 0 0 11" and pseudorange = 10 and pos = "vec3 0 0 1" and vel = vzero
        and p_error = "vec3 1 1 1" and v_error = "vec3 1 1 1"
        and vel_error = "vec3 4 5 6"]
  by blast

text \<open>
  Claim C2 as stated fails: the covariances of the default filter are symmetric, and
  \<open>init_attitude\<close> with the error matrix \<open>skew_error\<close> leaves \<open>1\<close> at \<open>(3, 4)\<close> and \<open>0\<close> at
  \<open>(4, 3)\<close> of \<open>cov\<close>.
\<close>

theorem symmetry_counterexample:
  "is_symmetric 12 (cov (default_filter real_ops))
   \<and> is_symmetric 4 (pt_cov (default_filter real_ops))
   \<and> \<not> is_symmetric 12 (cov (init_attitude quat_identity skew_error (default_filter real_ops)))"
proof -
  have "cov (init_attitude quat_identity skew_error (default_filter real_ops)) 3 4 = 1"
    "cov (init_attitude quat_identity skew_error (default_filter real_ops)) 4 3 = 0"
    by (simp_all add: init_attitude_def clear_cov_inertial skew_error_def set_coeff_def mzero_def)
  then have "\<not> is_symmetric 12 (cov (init_attitude quat_identity skew_error (default_filter real_ops)))"
    using is_symmetric_iff [of 12 "cov (init_attitude quat_identity skew_error (default_filter real_ops))",
        THEN iffD1, rule_format, of 3 4]
    by auto
  with default_filter_symmetric [of real_ops] show ?thesis by blast
qed

end
